theory Spec2Isabelle
  imports Main "HOL-Library.Sublist"
begin

section \<open>Shared data: text, local time\<close>

text \<open>
  A HOL string is a sequence of characters with code points below 256. The Python \<open>str\<close>
  values of message ids, object paths, place ids, time stamps and provider texts are
  taken in that range. The Hebrew labels and the emoji of the source are kept as the
  sequence of their Unicode code points, which is what a Python \<open>str\<close> is.
\<close>

type_synonym unicode = "nat list"

text \<open>
  \<open>datetime.datetime.now()\<close> is read from the environment. Of the value read, the code
  uses \<open>weekday()\<close> (Monday is 0, Sunday is 6), \<open>hour\<close>, \<open>strftime("%H:%M")\<close> and
  \<open>isoformat()\<close>.
\<close>

record local_time =
  weekday :: int
  hour :: int
  hhmm :: string
  isoformat :: string

section \<open>Schedule evaluator (\<open>monitor.py\<close> 23-43, \<open>collector/main.py\<close> 25-60)\<close>

text \<open>The dictionary \<open>OPERATING_HOURS\<close>: no entry for Saturday (5).\<close>

definition OPERATING_HOURS :: "int \<rightharpoonup> int \<times> int" where
  "OPERATING_HOURS =
     [0 \<mapsto> (9, 20), 1 \<mapsto> (9, 20), 2 \<mapsto> (9, 20), 3 \<mapsto> (9, 20), 4 \<mapsto> (9, 13), 6 \<mapsto> (9, 20)]"

text \<open>
  \<open>is_library_open\<close>, with the clock value it reads as its argument. The two source files
  differ only in the time zone of the clock they read.
\<close>

definition is_library_open :: "local_time \<Rightarrow> bool" where
  "is_library_open now =
     (case OPERATING_HOURS (weekday now) of
        Some (open_hour, close_hour) \<Rightarrow> open_hour \<le> hour now \<and> hour now < close_hour
      | None \<Rightarrow> False)"

section \<open>Load classifier (\<open>monitor.py\<close> 57-67, \<open>collector/main.py\<close> 76-86)\<close>

definition LABEL_UNKNOWN :: unicode where
  "LABEL_UNKNOWN = [0x5DC, 0x5D0, 0x20, 0x5D9, 0x5D3, 0x5D5, 0x5E2]"

definition LABEL_LOW :: unicode where
  "LABEL_LOW = [0x5E0, 0x5DE, 0x5D5, 0x5DA]"

definition LABEL_MEDIUM :: unicode where
  "LABEL_MEDIUM = [0x5D1, 0x5D9, 0x5E0, 0x5D5, 0x5E0, 0x5D9]"

definition LABEL_HIGH :: unicode where
  "LABEL_HIGH = [0x5D2, 0x5D1, 0x5D5, 0x5D4]"

definition WHITE_CIRCLE :: unicode where
  "WHITE_CIRCLE = [0x26AA, 0xFE0F]"

definition GREEN_CIRCLE :: unicode where
  "GREEN_CIRCLE = [0x1F7E2]"

definition YELLOW_CIRCLE :: unicode where
  "YELLOW_CIRCLE = [0x1F7E1]"

definition RED_CIRCLE :: unicode where
  "RED_CIRCLE = [0x1F534]"

definition classify_load :: "int option \<Rightarrow> unicode \<times> unicode" where
  "classify_load popularity =
     (case popularity of
        None \<Rightarrow> (LABEL_UNKNOWN, WHITE_CIRCLE)
      | Some p \<Rightarrow>
          if p < 30 then (LABEL_LOW, GREEN_CIRCLE)
          else if 30 \<le> p \<and> p < 60 then (LABEL_MEDIUM, YELLOW_CIRCLE)
          else (LABEL_HIGH, RED_CIRCLE))"

section \<open>Exceptions and Python values\<close>

text \<open>
  The exceptions that can leave a function of the source. \<open>BindingError\<close> is what
  \<open>sqlite3\<close> raises for a parameter of a type it cannot bind (\<open>ProgrammingError\<close>, in
  older versions \<open>InterfaceError\<close>); \<open>OSError\<close> stands for any error of opening, reading
  or writing a local file other than \<open>FileNotFoundError\<close>; \<open>DefaultCredentialsError\<close> is
  what building a storage client raises when it finds no credentials. A function that
  can raise returns a sum: \<open>Inl\<close> the exception, \<open>Inr\<close> the value returned.
\<close>

datatype py_exception =
  AttributeError
| KeyError
| TypeError
| OverflowError
| BindingError
| IntegrityError
| OSError
| DefaultCredentialsError
| GoogleAPICallError

text \<open>
  A value \<open>json.loads\<close> returns, as far as the sync looks at it: null, a boolean, an
  integer of any size, a float, a string, or an array or object, of which only whether
  it is empty matters. Of a float the sync can see whether it is nonzero (its truth
  value; NaN is true) and the text SQLite converts it to when it meets a \<open>TEXT\<close>
  column, such as \<open>1.5\<close> or \<open>Inf\<close>; NaN has none, \<open>sqlite3\<close> binds it as NULL.
\<close>

datatype json =
  JNull
| JBool bool
| JInt int
| JFloat bool "string option"
| JStr string
| JCompound bool

text \<open>Python's truth value (\<open>if x\<close>, \<open>not x\<close>, \<open>x or y\<close>).\<close>

definition truthy :: "json \<Rightarrow> bool" where
  "truthy v =
     (case v of
        JNull \<Rightarrow> False
      | JBool b \<Rightarrow> b
      | JInt i \<Rightarrow> i \<noteq> 0
      | JFloat nonzero as_text \<Rightarrow> nonzero
      | JStr s \<Rightarrow> s \<noteq> []
      | JCompound nonempty \<Rightarrow> nonempty)"

text \<open>\<open>str\<close> of an integer: its decimal digits, with a minus sign when negative.\<close>

fun digits :: "nat \<Rightarrow> string" where
  "digits n =
     (if n < 10 then [char_of (48 + n)] else digits (n div 10) @ [char_of (48 + n mod 10)])"

declare digits.simps [simp del]

definition str_int :: "int \<Rightarrow> string" where
  "str_int i = (if i < 0 then CHR ''-'' # digits (nat (- i)) else digits (nat i))"

text \<open>
  \<open>str.strip()\<close>: leading and trailing whitespace removed. Below 256 the characters
  with \<open>str.isspace()\<close> are 9 to 13, 28 to 32, 133 and 160.
\<close>

definition is_space :: "char \<Rightarrow> bool" where
  "is_space c \<longleftrightarrow> (of_char c :: nat) \<in> {9, 10, 11, 12, 13, 28, 29, 30, 31, 32, 133, 160}"

definition strip :: "string \<Rightarrow> string" where
  "strip s = rev (dropWhile is_space (rev (dropWhile is_space s)))"

section \<open>The messaging provider (\<open>monitor.py\<close> 82-121, \<open>collector/main.py\<close> 132-172)\<close>

text \<open>
  The text handed to the provider is kept as the source's f-string template with its
  arguments: the closed notice, the load update (emoji, load level, popularity, time) and
  the notice that no popularity could be obtained (emoji, time).
\<close>

datatype status_text =
  ClosedText
| LoadText unicode unicode int string
| NoDataText unicode string

text \<open>The two requests the code posts: bot token, chat id, (message id,) text.\<close>

datatype tg_request =
  SendMessage string string status_text
| EditMessageText string string string status_text

text \<open>
  The value of \<open>response.json()\<close> as \<open>send_telegram_message\<close> reads it, by what the
  reads \<open>data.get("ok")\<close> and \<open>data["result"]["message_id"]\<close> do on it:
  \<^item> \<open>NotAnObject\<close>: the body is a JSON array, string, number, boolean or null, and
    \<open>data.get\<close> raises \<open>AttributeError\<close>;
  \<^item> \<open>OkFalsy\<close>: an object whose \<open>ok\<close> is missing or falsy;
  \<^item> \<open>ResultMissing\<close>: \<open>ok\<close> is truthy and there is no \<open>result\<close> (\<open>KeyError\<close>);
  \<^item> \<open>ResultNotObject\<close>: \<open>ok\<close> is truthy and \<open>result\<close> is no object (\<open>TypeError\<close>);
  \<^item> \<open>MessageIdMissing\<close>: \<open>ok\<close> is truthy and the object \<open>result\<close> has no
    \<open>message_id\<close> (\<open>KeyError\<close>);
  \<^item> \<open>OkResult s\<close>: \<open>ok\<close> is truthy and \<open>result.message_id\<close> is there; \<open>s\<close> is
    \<open>str(message_id)\<close>, the decimal numeral for the integer ids the Bot API sends.
\<close>

datatype tg_json =
  NotAnObject
| OkFalsy
| ResultMissing
| ResultNotObject
| MessageIdMissing
| OkResult string

text \<open>
  What \<open>requests.post\<close> gives back. \<open>RequestException\<close>: the call raised (connection
  error, timeout). \<open>Response status_code text json\<close>: a response; \<open>json\<close> is the value of
  \<open>response.json()\<close>, \<open>None\<close> when the body is not JSON, in which case \<open>requests\<close> raises
  its \<open>JSONDecodeError\<close>, a \<open>RequestException\<close>.
\<close>

datatype http_outcome =
  RequestException
| Response int string "tg_json option"

text \<open>\<open>response.raise_for_status()\<close> raises \<open>HTTPError\<close> on a 4xx or 5xx status.\<close>

definition raise_for_status :: "int \<Rightarrow> bool" where
  "raise_for_status status_code \<longleftrightarrow> 400 \<le> status_code \<and> status_code < 600"

text \<open>
  The body of \<open>edit_telegram_message\<close> after the post, the same in both files: a 400
  whose text contains \<open>message is not modified\<close> is success; otherwise an error status or
  a raised \<open>RequestException\<close> is failure.
\<close>

definition edit_outcome :: "http_outcome \<Rightarrow> bool" where
  "edit_outcome r =
     (case r of
        RequestException \<Rightarrow> False
      | Response status_code text js \<Rightarrow>
          if status_code = 400 \<and> sublist ''message is not modified'' text then True
          else if raise_for_status status_code then False
          else True)"

text \<open>The two reads of the reply in \<open>send_telegram_message\<close>; neither is caught there.\<close>

definition read_message_id :: "tg_json \<Rightarrow> py_exception + string option" where
  "read_message_id data =
     (case data of
        NotAnObject \<Rightarrow> Inl AttributeError
      | OkFalsy \<Rightarrow> Inr None
      | ResultMissing \<Rightarrow> Inl KeyError
      | ResultNotObject \<Rightarrow> Inl TypeError
      | MessageIdMissing \<Rightarrow> Inl KeyError
      | OkResult s \<Rightarrow> Inr (Some s))"

text \<open>
  The body of \<open>send_telegram_message\<close> after the post, up to the message id read from
  the reply. Only \<open>RequestException\<close> is caught: the post raising, an error status and a
  body that is not JSON end in \<open>None\<close>, as does a falsy \<open>ok\<close>; the exceptions of the
  two reads leave the function.
\<close>

definition send_outcome :: "http_outcome \<Rightarrow> py_exception + string option" where
  "send_outcome r =
     (case r of
        RequestException \<Rightarrow> Inr None
      | Response status_code text js \<Rightarrow>
          if raise_for_status status_code then Inr None
          else (case js of
                  None \<Rightarrow> Inr None
                | Some data \<Rightarrow> read_message_id data))"

text \<open>What \<open>populartimes.get_populartimes_by_PlaceID\<close> does: raise, or return place data
  whose \<open>current_popularity\<close> may be missing.\<close>

datatype crowd_outcome =
  FetchRaises
| PlaceData "int option"

definition get_crowd_data :: "crowd_outcome \<Rightarrow> int option" where
  "get_crowd_data r = (case r of FetchRaises \<Rightarrow> None | PlaceData p \<Rightarrow> p)"

text \<open>
  The effects of a cycle on the outside world, in the order they happen: a secret looked
  up, the stored message id read or written (for a write, the attempt), the popularity
  provider queried, a reading written to the archive, a request posted to the messaging
  provider.
\<close>

datatype effect =
  GetSecret string
| ReadState
| WriteState string
| FetchCrowd string string
| WriteReading string
| Telegram tg_request

fun is_send :: "effect \<Rightarrow> bool" where
  "is_send (Telegram (SendMessage token chat text)) = True"
| "is_send _ = False"

definition build_message :: "int option \<Rightarrow> unicode \<Rightarrow> unicode \<Rightarrow> string \<Rightarrow> status_text" where
  "build_message popularity emoji load_level timestamp =
     (case popularity of
        Some p \<Rightarrow> LoadText emoji load_level p timestamp
      | None \<Rightarrow> NoDataText emoji timestamp)"

section \<open>The local monitor (\<open>monitor.py\<close>)\<close>

text \<open>
  What a cycle of the local monitor reads from outside: the clock in \<open>is_library_open\<close>
  (line 36) and again for the time stamp (line 146), the module constants for the bot
  token and the chat, the popularity provider, the messaging provider, and whether
  reading or writing the file \<open>MESSAGE_ID_FILE\<close> raises an error other than
  \<open>FileNotFoundError\<close>. The only state is that file: its content, or \<open>None\<close> when it does
  not exist.
\<close>

record local_env =
  l_clock_open :: local_time
  l_clock_stamp :: string
  TELEGRAM_BOT_TOKEN :: string
  TELEGRAM_CHAT_ID :: string
  GOOGLE_API_KEY :: string
  PLACE_ID :: string
  l_places :: "string \<Rightarrow> string \<Rightarrow> crowd_outcome"
  l_tg :: "tg_request \<Rightarrow> http_outcome"
  file_read_raises :: bool
  file_write_raises :: bool

text \<open>\<open>get_last_message_id\<close> of \<open>monitor.py\<close> catches \<open>FileNotFoundError\<close> only.\<close>

definition get_last_message_id_local ::
    "local_env \<Rightarrow> string option \<Rightarrow> py_exception + string option" where
  "get_last_message_id_local e file =
     (if file_read_raises e then Inl OSError
      else Inr (case file of None \<Rightarrow> None | Some s \<Rightarrow> Some (strip s)))"

text \<open>\<open>save_last_message_id\<close> of \<open>monitor.py\<close> catches nothing; when opening the file for
  writing raises, the file is as before.\<close>

definition save_last_message_id_local ::
    "local_env \<Rightarrow> string \<Rightarrow> string option \<Rightarrow> (py_exception + unit) \<times> string option" where
  "save_last_message_id_local e mid file =
     (if file_write_raises e then (Inl OSError, file) else (Inr (), Some mid))"

text \<open>\<open>send_telegram_message\<close> of \<open>monitor.py\<close>: it saves the new id itself, inside the
  \<open>try\<close> that catches \<open>RequestException\<close> only.\<close>

definition send_telegram_message_local ::
    "local_env \<Rightarrow> status_text \<Rightarrow> string option
       \<Rightarrow> (py_exception + unit) \<times> string option \<times> effect list" where
  "send_telegram_message_local e text file =
     (let req = SendMessage (TELEGRAM_BOT_TOKEN e) (TELEGRAM_CHAT_ID e) text in
      case send_outcome (l_tg e req) of
        Inl ex \<Rightarrow> (Inl ex, file, [Telegram req])
      | Inr None \<Rightarrow> (Inr (), file, [Telegram req])
      | Inr (Some mid) \<Rightarrow>
          (case save_last_message_id_local e mid file of
             (r, file') \<Rightarrow> (r, file', [Telegram req, WriteState mid])))"

definition edit_telegram_message_local ::
    "local_env \<Rightarrow> string \<Rightarrow> status_text \<Rightarrow> bool \<times> effect list" where
  "edit_telegram_message_local e mid text =
     (let req = EditMessageText (TELEGRAM_BOT_TOKEN e) (TELEGRAM_CHAT_ID e) mid text in
      (edit_outcome (l_tg e req), [Telegram req]))"

text \<open>
  \<open>run_check\<close>. In the closed branch (lines 132-141) the result of the edit is dropped;
  in the open branch (lines 161-168) a failed edit is followed by a send. A stored id is
  used when it is truthy: read and not empty. The result is \<open>Inr ()\<close> when the function
  returns and \<open>Inl\<close> the exception that leaves it, then the file and the effects so far.
\<close>

definition run_check ::
    "local_env \<Rightarrow> string option \<Rightarrow> (py_exception + unit) \<times> string option \<times> effect list" where
  "run_check e file =
     (if \<not> is_library_open (l_clock_open e) then
        (case get_last_message_id_local e file of
           Inl ex \<Rightarrow> (Inl ex, file, [ReadState])
         | Inr (Some last_message_id) \<Rightarrow>
             if last_message_id \<noteq> [] then
               (case edit_telegram_message_local e last_message_id ClosedText of
                  (edited, fx) \<Rightarrow> (Inr (), file, ReadState # fx))
             else
               (case send_telegram_message_local e ClosedText file of
                  (r, file', fx) \<Rightarrow> (r, file', ReadState # fx))
         | Inr None \<Rightarrow>
             (case send_telegram_message_local e ClosedText file of
                (r, file', fx) \<Rightarrow> (r, file', ReadState # fx)))
      else
        (let popularity = get_crowd_data (l_places e (GOOGLE_API_KEY e) (PLACE_ID e));
             fetch = FetchCrowd (GOOGLE_API_KEY e) (PLACE_ID e)
         in case classify_load popularity of
           (load_level, emoji) \<Rightarrow>
             (let message = build_message popularity emoji load_level (l_clock_stamp e) in
              case get_last_message_id_local e file of
                Inl ex \<Rightarrow> (Inl ex, file, [fetch, ReadState])
              | Inr (Some last_message_id) \<Rightarrow>
                  if last_message_id \<noteq> [] then
                    (case edit_telegram_message_local e last_message_id message of
                       (edited, fx) \<Rightarrow>
                         if \<not> edited then
                           (case send_telegram_message_local e message file of
                              (r, file', fx') \<Rightarrow> (r, file', fetch # ReadState # fx @ fx'))
                         else (Inr (), file, fetch # ReadState # fx))
                  else
                    (case send_telegram_message_local e message file of
                       (r, file', fx) \<Rightarrow> (r, file', fetch # ReadState # fx))
              | Inr None \<Rightarrow>
                  (case send_telegram_message_local e message file of
                     (r, file', fx) \<Rightarrow> (r, file', fetch # ReadState # fx)))))"

section \<open>The cloud function (\<open>functions/collector/main.py\<close>)\<close>

text \<open>
  The bucket: the blob \<open>state/telegram_message_id.txt\<close> (its text, or \<open>None\<close> when it
  does not exist) and the reading objects under \<open>readings/\<close>, by path.
\<close>

record reading =
  rd_timestamp :: string
  rd_place_id :: string
  rd_popularity :: "int option"
  rd_day_of_week :: int
  rd_hour :: int
  rd_is_open :: bool

record bucket =
  state_blob :: "string option"
  reading_blobs :: "string \<rightharpoonup> reading"

text \<open>
  What a cycle of the cloud function reads from outside: the clock at entry (line 183),
  in \<open>is_library_open\<close> (line 53) and in \<open>save_reading\<close> (line 116, of which the path
  built from it is kept); the secret manager (\<open>None\<close>: \<open>get_secret\<close> raises); the two
  providers; whether \<open>get_storage_client()\<close> raises (line 197, outside any \<open>try\<close>); and
  whether the storage calls on the state blob and on the reading object raise (each
  inside a \<open>try\<close> that catches every exception).
\<close>

record cloud_env =
  clock_entry :: local_time
  clock_open :: local_time
  clock_save_path :: string
  secrets :: "string \<Rightarrow> string option"
  places :: "string \<Rightarrow> string \<Rightarrow> crowd_outcome"
  tg :: "tg_request \<Rightarrow> http_outcome"
  storage_client_raises :: bool
  state_read_raises :: bool
  state_write_raises :: bool
  reading_write_raises :: bool

definition get_last_message_id :: "cloud_env \<Rightarrow> bucket \<Rightarrow> string option" where
  "get_last_message_id e b =
     (if state_read_raises e then None
      else (case state_blob b of None \<Rightarrow> None | Some s \<Rightarrow> Some (strip s)))"

definition save_last_message_id :: "cloud_env \<Rightarrow> bucket \<Rightarrow> string \<Rightarrow> bucket" where
  "save_last_message_id e b mid =
     (if state_write_raises e then b else b\<lparr>state_blob := Some mid\<rparr>)"

definition save_reading :: "cloud_env \<Rightarrow> bucket \<Rightarrow> reading \<Rightarrow> bucket" where
  "save_reading e b r =
     (if reading_write_raises e then b
      else b\<lparr>reading_blobs := (reading_blobs b)(clock_save_path e \<mapsto> r)\<rparr>)"

definition send_telegram_message ::
    "cloud_env \<Rightarrow> string \<Rightarrow> string \<Rightarrow> status_text \<Rightarrow> py_exception + string option" where
  "send_telegram_message e token chat_id text =
     send_outcome (tg e (SendMessage token chat_id text))"

definition edit_telegram_message ::
    "cloud_env \<Rightarrow> string \<Rightarrow> string \<Rightarrow> string \<Rightarrow> status_text \<Rightarrow> bool" where
  "edit_telegram_message e token chat_id mid text =
     edit_outcome (tg e (EditMessageText token chat_id mid text))"

text \<open>
  The statements \<open>new_id = send_telegram_message(...); if new_id: save_last_message_id(...)\<close>,
  which \<open>monitor_crowds\<close> has four times (lines 207-209, 211-213, 253-255, 257-259).
\<close>

definition send_then_save ::
    "cloud_env \<Rightarrow> string \<Rightarrow> string \<Rightarrow> status_text \<Rightarrow> bucket
       \<Rightarrow> (py_exception + unit) \<times> bucket \<times> effect list" where
  "send_then_save e token chat_id text b =
     (case send_telegram_message e token chat_id text of
        Inl ex \<Rightarrow> (Inl ex, b, [Telegram (SendMessage token chat_id text)])
      | Inr (Some new_id) \<Rightarrow>
          if new_id \<noteq> [] then
            (Inr (), save_last_message_id e b new_id,
             [Telegram (SendMessage token chat_id text), WriteState new_id])
          else (Inr (), b, [Telegram (SendMessage token chat_id text)])
      | Inr None \<Rightarrow> (Inr (), b, [Telegram (SendMessage token chat_id text)]))"

text \<open>
  The edit-or-create statements of \<open>monitor_crowds\<close>, the same for the closed notice
  (lines 203-213) and for the load update (lines 249-259).
\<close>

definition publish_status ::
    "cloud_env \<Rightarrow> string \<Rightarrow> string \<Rightarrow> status_text \<Rightarrow> bucket
       \<Rightarrow> (py_exception + unit) \<times> bucket \<times> effect list" where
  "publish_status e token chat_id text b =
     (case get_last_message_id e b of
        Some last_message_id \<Rightarrow>
          if last_message_id \<noteq> [] then
            if \<not> edit_telegram_message e token chat_id last_message_id text then
              (case send_then_save e token chat_id text b of
                 (r, b', fx) \<Rightarrow>
                   (r, b',
                    ReadState # Telegram (EditMessageText token chat_id last_message_id text) # fx))
            else (Inr (), b,
                  [ReadState, Telegram (EditMessageText token chat_id last_message_id text)])
          else
            (case send_then_save e token chat_id text b of
               (r, b', fx) \<Rightarrow> (r, b', ReadState # fx))
      | None \<Rightarrow>
          (case send_then_save e token chat_id text b of
             (r, b', fx) \<Rightarrow> (r, b', ReadState # fx)))"

text \<open>
  \<open>monitor_crowds\<close> from line 197 on, once the four secrets are there. The result is
  \<open>Inr\<close> the response (body, status) the function returns or \<open>Inl\<close> the exception that
  leaves it, then the bucket and the effects so far.
\<close>

definition monitor_crowds_body ::
    "cloud_env \<Rightarrow> string \<Rightarrow> string \<Rightarrow> string \<Rightarrow> string \<Rightarrow> bucket
       \<Rightarrow> (py_exception + string \<times> int) \<times> bucket \<times> effect list" where
  "monitor_crowds_body e google_api_key telegram_token telegram_chat_id place_id b =
     (if storage_client_raises e then (Inl DefaultCredentialsError, b, [])
      else if \<not> is_library_open (clock_open e) then
        (case publish_status e telegram_token telegram_chat_id ClosedText b of
           (Inl ex, b', fx) \<Rightarrow> (Inl ex, b', fx)
         | (Inr u, b', fx) \<Rightarrow> (Inr (''Library closed'', 200), b', fx))
      else
        (let popularity = get_crowd_data (places e google_api_key place_id) in
         case classify_load popularity of
           (load_level, emoji) \<Rightarrow>
             (let now = clock_entry e;
                  timestamp = hhmm now;
                  r = \<lparr>rd_timestamp = isoformat now, rd_place_id = place_id,
                       rd_popularity = popularity, rd_day_of_week = weekday now,
                       rd_hour = hour now, rd_is_open = True\<rparr>;
                  b1 = save_reading e b r;
                  message = build_message popularity emoji load_level timestamp;
                  pfx = [FetchCrowd google_api_key place_id, WriteReading (clock_save_path e)]
              in case publish_status e telegram_token telegram_chat_id message b1 of
                (Inl ex, b2, fx) \<Rightarrow> (Inl ex, b2, pfx @ fx)
              | (Inr u, b2, fx) \<Rightarrow>
                  (Inr (''Success: popularity=''
                          @ (case popularity of None \<Rightarrow> ''None'' | Some p \<Rightarrow> str_int p), 200),
                   b2, pfx @ fx))))"

text \<open>
  \<open>monitor_crowds\<close>: the four secrets are resolved in order inside one \<open>try\<close>; the first
  that raises ends the cycle with status 500.
\<close>

definition monitor_crowds ::
    "cloud_env \<Rightarrow> bucket \<Rightarrow> (py_exception + string \<times> int) \<times> bucket \<times> effect list" where
  "monitor_crowds e b =
     (case secrets e ''GOOGLE_API_KEY'' of
        None \<Rightarrow> (Inr (''Error getting secrets'', 500), b, [GetSecret ''GOOGLE_API_KEY''])
      | Some google_api_key \<Rightarrow>
     (case secrets e ''TELEGRAM_BOT_TOKEN'' of
        None \<Rightarrow> (Inr (''Error getting secrets'', 500), b,
                  [GetSecret ''GOOGLE_API_KEY'', GetSecret ''TELEGRAM_BOT_TOKEN''])
      | Some telegram_token \<Rightarrow>
     (case secrets e ''TELEGRAM_CHAT_ID'' of
        None \<Rightarrow> (Inr (''Error getting secrets'', 500), b,
                  [GetSecret ''GOOGLE_API_KEY'', GetSecret ''TELEGRAM_BOT_TOKEN'',
                   GetSecret ''TELEGRAM_CHAT_ID''])
      | Some telegram_chat_id \<Rightarrow>
     (case secrets e ''PLACE_ID'' of
        None \<Rightarrow> (Inr (''Error getting secrets'', 500), b,
                  [GetSecret ''GOOGLE_API_KEY'', GetSecret ''TELEGRAM_BOT_TOKEN'',
                   GetSecret ''TELEGRAM_CHAT_ID'', GetSecret ''PLACE_ID''])
      | Some place_id \<Rightarrow>
          (case monitor_crowds_body e google_api_key telegram_token telegram_chat_id place_id b of
             (r, b', fx) \<Rightarrow>
               (r, b',
                [GetSecret ''GOOGLE_API_KEY'', GetSecret ''TELEGRAM_BOT_TOKEN'',
                 GetSecret ''TELEGRAM_CHAT_ID'', GetSecret ''PLACE_ID''] @ fx))))))"

definition SECRET_IDS :: "string list" where
  "SECRET_IDS = [''GOOGLE_API_KEY'', ''TELEGRAM_BOT_TOKEN'', ''TELEGRAM_CHAT_ID'', ''PLACE_ID'']"

section \<open>The local database (\<open>local/database.py\<close>)\<close>

text \<open>
  A parameter as \<open>sqlite3\<close> binds it: \<open>None\<close> as NULL, a boolean as the integer 0 or 1,
  an integer as a 64-bit integer (\<open>OverflowError\<close> outside that range), a float as a
  real (NaN as NULL), a string as text; an array or object cannot be bound. A real is
  kept as the text SQLite converts it to. A statement's parameters are bound in order,
  and before the statement runs.
\<close>

datatype sql_value =
  SqlNull
| SqlInt int
| SqlReal string
| SqlText string

definition bind_param :: "json \<Rightarrow> py_exception + sql_value" where
  "bind_param v =
     (case v of
        JNull \<Rightarrow> Inr SqlNull
      | JBool b \<Rightarrow> Inr (SqlInt (if b then 1 else 0))
      | JInt i \<Rightarrow>
          if - 9223372036854775808 \<le> i \<and> i \<le> 9223372036854775807 then Inr (SqlInt i)
          else Inl OverflowError
      | JFloat nonzero as_text \<Rightarrow>
          (case as_text of None \<Rightarrow> Inr SqlNull | Some t \<Rightarrow> Inr (SqlReal t))
      | JStr s \<Rightarrow> Inr (SqlText s)
      | JCompound nonempty \<Rightarrow> Inl BindingError)"

text \<open>
  A column declared \<open>TEXT\<close> stores an integer as its decimal text and a real as its
  text, and a parameter compared with such a column is converted in the same way; NULL
  stays NULL.
\<close>

definition text_affinity :: "sql_value \<Rightarrow> string option" where
  "text_affinity v =
     (case v of
        SqlNull \<Rightarrow> None
      | SqlInt i \<Rightarrow> Some (str_int i)
      | SqlReal t \<Rightarrow> Some t
      | SqlText s \<Rightarrow> Some s)"

text \<open>
  The three tables, each as the list of its rows in insertion order. The columns the code
  never reads back and fills by default (\<open>readings.id\<close>, \<open>sync_log.id\<close>, the creation
  times, \<open>operating_hours\<close>, \<open>is_active\<close>) are left out. Of \<open>popularity\<close>,
  \<open>day_of_week\<close> and \<open>hour\<close> a row keeps the value bound (a text that reads as a number
  is stored by SQLite as that number). The database file itself is taken to work: a
  statement raises only for a parameter it cannot bind or a constraint of the schema.
\<close>

record location_row =
  loc_id :: nat
  loc_name :: string
  loc_name_he :: "unicode option"
  loc_place_id :: string
  loc_address :: "string option"

record reading_row =
  r_location_id :: nat
  r_popularity :: sql_value
  r_timestamp :: string
  r_day_of_week :: sql_value
  r_hour :: sql_value
  r_is_open :: int
  r_synced_from :: "string option"

record db =
  locations :: "location_row list"
  readings :: "reading_row list"
  sync_log :: "string list"

text \<open>\<open>init_db\<close> creates the tables and indexes that do not exist yet; rows are untouched.\<close>

definition init_db :: "db \<Rightarrow> db" where
  "init_db d = d"

text \<open>
  \<open>get_or_create_location\<close>: the id of the row with this \<open>place_id\<close>, or a new row whose
  id (\<open>AUTOINCREMENT\<close>, no row is ever deleted, ids stay below \<open>2^63\<close>) is one more
  than the largest id. Nothing is caught: binding \<open>place_id\<close> to the \<open>SELECT\<close> can
  raise, and a \<open>place_id\<close> bound as NULL matches no row and then violates \<open>NOT NULL\<close>
  in the \<open>INSERT\<close>.
\<close>

definition get_or_create_location ::
    "json \<Rightarrow> string option \<Rightarrow> unicode option \<Rightarrow> string option \<Rightarrow> db
       \<Rightarrow> (py_exception + nat) \<times> db" where
  "get_or_create_location place_id name name_he address d =
     (case bind_param place_id of
        Inl ex \<Rightarrow> (Inl ex, d)
      | Inr v \<Rightarrow>
          (case text_affinity v of
             None \<Rightarrow> (Inl IntegrityError, d)
           | Some p \<Rightarrow>
               (case find (\<lambda>l. loc_place_id l = p) (locations d) of
                  Some row \<Rightarrow> (Inr (loc_id row), d)
                | None \<Rightarrow>
                    (let location_id = Suc (fold max (map loc_id (locations d)) 0);
                         row = \<lparr>loc_id = location_id,
                                loc_name = (case name of
                                              Some n \<Rightarrow> if n \<noteq> [] then n else ''Unknown''
                                            | None \<Rightarrow> ''Unknown''),
                                loc_name_he = name_he,
                                loc_place_id = p,
                                loc_address = address\<rparr>
                     in (Inr location_id, d\<lparr>locations := locations d @ [row]\<rparr>)))))"

text \<open>
  \<open>insert_reading\<close>: only \<open>sqlite3.IntegrityError\<close> is caught, and answered with
  \<open>False\<close>; it is raised when the time stamp is null (\<open>timestamp TEXT NOT NULL\<close>) or a
  row with the same location and time stamp exists (\<open>UNIQUE(location_id, timestamp)\<close>).
  An exception of binding \<open>popularity\<close>, \<open>timestamp\<close>, \<open>day_of_week\<close> or \<open>hour\<close> leaves
  the function, before any constraint is looked at. \<open>is_open\<close> is bound as
  \<open>1 if is_open else 0\<close>.
\<close>

definition insert_reading ::
    "nat \<Rightarrow> json \<Rightarrow> json \<Rightarrow> json \<Rightarrow> json \<Rightarrow> json \<Rightarrow> string option \<Rightarrow> db
       \<Rightarrow> (py_exception + bool) \<times> db" where
  "insert_reading location_id popularity timestamp day_of_week hour_of_day is_open synced_from d =
     (case bind_param popularity of
        Inl ex \<Rightarrow> (Inl ex, d)
      | Inr pv \<Rightarrow>
     (case bind_param timestamp of
        Inl ex \<Rightarrow> (Inl ex, d)
      | Inr tv \<Rightarrow>
     (case bind_param day_of_week of
        Inl ex \<Rightarrow> (Inl ex, d)
      | Inr dv \<Rightarrow>
     (case bind_param hour_of_day of
        Inl ex \<Rightarrow> (Inl ex, d)
      | Inr hv \<Rightarrow>
          (case text_affinity tv of
             None \<Rightarrow> (Inr False, d)
           | Some ts \<Rightarrow>
               if list_ex (\<lambda>r. r_location_id r = location_id \<and> r_timestamp r = ts) (readings d)
               then (Inr False, d)
               else (Inr True,
                     d\<lparr>readings := readings d @
                          [\<lparr>r_location_id = location_id, r_popularity = pv,
                            r_timestamp = ts, r_day_of_week = dv, r_hour = hv,
                            r_is_open = (if truthy is_open then 1 else 0),
                            r_synced_from = synced_from\<rparr>]\<rparr>))))))"

text \<open>\<open>mark_blob_synced\<close>: the insert fails on a path already there (\<open>blob_path UNIQUE\<close>),
  and that \<open>IntegrityError\<close> is passed over.\<close>

definition mark_blob_synced :: "string \<Rightarrow> db \<Rightarrow> db" where
  "mark_blob_synced blob_path d =
     (if blob_path \<in> set (sync_log d) then d
      else d\<lparr>sync_log := sync_log d @ [blob_path]\<rparr>)"

definition is_blob_synced :: "string \<Rightarrow> db \<Rightarrow> bool" where
  "is_blob_synced blob_path d \<longleftrightarrow> blob_path \<in> set (sync_log d)"

definition get_readings_count :: "db \<Rightarrow> nat" where
  "get_readings_count d = length (readings d)"

section \<open>The sync (\<open>local/sync.py\<close>)\<close>

record location_info =
  li_name :: string
  li_name_he :: unicode
  li_address :: string

definition LOCATIONS :: "string \<rightharpoonup> location_info" where
  "LOCATIONS =
     [''ChIJy8LxJaZGHRURzNVZXycuQnw'' \<mapsto>
        \<lparr>li_name = ''National Library of Israel'',
         li_name_he = [0x5D4, 0x5E1, 0x5E4, 0x5E8, 0x5D9, 0x5D9, 0x5D4, 0x20,
                       0x5D4, 0x5DC, 0x5D0, 0x5D5, 0x5DE, 0x5D9, 0x5EA],
         li_address = ''Edmond J. Safra Campus, Givat Ram, Jerusalem''\<rparr>]"

text \<open>
  \<open>LOCATIONS.get(place_id, {})\<close>: the keys are strings, so a boolean or a number
  finds nothing; an array or object is unhashable and raises \<open>TypeError\<close>.
\<close>

definition locations_get :: "json \<Rightarrow> py_exception + location_info option" where
  "locations_get place_id =
     (case place_id of
        JStr s \<Rightarrow> Inr (LOCATIONS s)
      | JCompound nonempty \<Rightarrow> Inl TypeError
      | _ \<Rightarrow> Inr None)"

text \<open>
  An archived object as the sync meets it: its path and what downloading and parsing it
  gives. \<open>DownloadRaises\<close>: \<open>download_as_text\<close> raised; \<open>NotJson\<close>: \<open>json.loads\<close> raised;
  \<open>JsonNonObject\<close>: the content is JSON but no object, so \<open>data.get\<close> raises;
  \<open>JsonObject\<close>: an object, given by the values the six \<open>data.get\<close> calls return
  (\<open>JNull\<close> for a missing key, except \<open>is_open\<close>, whose default is \<open>True\<close>).
\<close>

record reading_data =
  j_place_id :: json
  j_popularity :: json
  j_timestamp :: json
  j_day_of_week :: json
  j_hour :: json
  j_is_open :: json

datatype download =
  DownloadRaises
| NotJson
| JsonNonObject
| JsonObject reading_data

record blob =
  blob_name :: string
  blob_content :: download

record counts =
  new_count :: nat
  skip_count :: nat
  error_count :: nat

text \<open>
  One turn of the loop of \<open>sync_readings\<close> (lines 70-118). Every exception raised
  between the download and \<open>mark_blob_synced\<close> is caught by the \<open>except Exception\<close> of
  the loop and counted as an error; what was committed before it stays.
\<close>

definition sync_blob :: "blob \<Rightarrow> db \<times> counts \<Rightarrow> db \<times> counts" where
  "sync_blob b st =
     (case st of (d, c) \<Rightarrow>
        if is_blob_synced (blob_name b) d then (d, c\<lparr>skip_count := skip_count c + 1\<rparr>)
        else
          (case blob_content b of
             DownloadRaises \<Rightarrow> (d, c\<lparr>error_count := error_count c + 1\<rparr>)
           | NotJson \<Rightarrow> (d, c\<lparr>error_count := error_count c + 1\<rparr>)
           | JsonNonObject \<Rightarrow> (d, c\<lparr>error_count := error_count c + 1\<rparr>)
           | JsonObject data \<Rightarrow>
               if \<not> truthy (j_place_id data) then (d, c\<lparr>error_count := error_count c + 1\<rparr>)
               else
                 (case locations_get (j_place_id data) of
                    Inl ex \<Rightarrow> (d, c\<lparr>error_count := error_count c + 1\<rparr>)
                  | Inr location_info \<Rightarrow>
                      (case get_or_create_location (j_place_id data)
                              (map_option li_name location_info)
                              (map_option li_name_he location_info)
                              (map_option li_address location_info) d of
                         (Inl ex, d1) \<Rightarrow> (d1, c\<lparr>error_count := error_count c + 1\<rparr>)
                       | (Inr location_id, d1) \<Rightarrow>
                           (case insert_reading location_id (j_popularity data)
                                   (j_timestamp data) (j_day_of_week data) (j_hour data)
                                   (j_is_open data) (Some (blob_name b)) d1 of
                              (Inl ex, d2) \<Rightarrow> (d2, c\<lparr>error_count := error_count c + 1\<rparr>)
                            | (Inr inserted, d2) \<Rightarrow>
                                (mark_blob_synced (blob_name b) d2,
                                 if inserted then c\<lparr>new_count := new_count c + 1\<rparr>
                                 else c\<lparr>skip_count := skip_count c + 1\<rparr>))))))"

fun sync_loop :: "blob list \<Rightarrow> db \<times> counts \<Rightarrow> db \<times> counts" where
  "sync_loop [] st = st"
| "sync_loop (b # bs) st = sync_loop bs (sync_blob b st)"

text \<open>
  \<open>sync_readings\<close>. \<open>StorageRaises\<close>: getting the client or the bucket raised, and the
  function returns after \<open>init_db\<close>. \<open>ListRaises\<close>: listing the bucket raised (line 61,
  outside any \<open>try\<close>), and the exception leaves the function. \<open>Listed\<close>: the objects
  under \<open>readings/\<close>. The result is the database afterwards and, when the function
  returns, the three counts printed if the loop was run.
\<close>

datatype storage =
  StorageRaises
| ListRaises
| Listed "blob list"

definition sync_readings ::
    "storage \<Rightarrow> db \<Rightarrow> db \<times> (py_exception + counts option)" where
  "sync_readings s d =
     (let d0 = init_db d in
      case s of
        StorageRaises \<Rightarrow> (d0, Inr None)
      | ListRaises \<Rightarrow> (d0, Inl GoogleAPICallError)
      | Listed blobs \<Rightarrow>
          (let json_blobs = filter (\<lambda>b. suffix ''.json'' (blob_name b)) blobs in
           case sync_loop json_blobs
                  (d0, \<lparr>new_count = 0, skip_count = 0, error_count = 0\<rparr>) of
             (d', c) \<Rightarrow> (d', Inr (Some c))))"

section \<open>Constraints of the schema and derived notions\<close>

text \<open>The text a \<open>TEXT\<close> column holds for a value, when the value can be bound and is
  not null.\<close>

definition stored_text :: "json \<Rightarrow> string option" where
  "stored_text v = (case bind_param v of Inl ex \<Rightarrow> None | Inr x \<Rightarrow> text_affinity x)"

text \<open>
  The object gets through \<open>insert_reading\<close>: it parses to an object whose \<open>place_id\<close>
  is truthy, hashable and stored as a text, and whose \<open>popularity\<close>, \<open>timestamp\<close>,
  \<open>day_of_week\<close> and \<open>hour\<close> can be bound. This depends on the object alone.
\<close>

definition insert_returns :: "blob \<Rightarrow> bool" where
  "insert_returns b =
     (case blob_content b of
        JsonObject data \<Rightarrow>
          truthy (j_place_id data)
          \<and> \<not> isl (locations_get (j_place_id data))
          \<and> stored_text (j_place_id data) \<noteq> None
          \<and> \<not> isl (bind_param (j_popularity data))
          \<and> \<not> isl (bind_param (j_timestamp data))
          \<and> \<not> isl (bind_param (j_day_of_week data))
          \<and> \<not> isl (bind_param (j_hour data))
      | _ \<Rightarrow> False)"

text \<open>The key of \<open>UNIQUE(location_id, timestamp)\<close>.\<close>

definition reading_key :: "reading_row \<Rightarrow> nat \<times> string" where
  "reading_key r = (r_location_id r, r_timestamp r)"

text \<open>
  The three \<open>UNIQUE\<close> constraints of the schema: on \<open>locations.place_id\<close>, on
  \<open>readings(location_id, timestamp)\<close> and on \<open>sync_log.blob_path\<close>.
\<close>

definition db_constraints :: "db \<Rightarrow> bool" where
  "db_constraints d \<longleftrightarrow>
     distinct (map loc_place_id (locations d))
     \<and> distinct (map reading_key (readings d))
     \<and> distinct (sync_log d)"

text \<open>The location id \<open>get_or_create_location\<close> answers for a stored place id.\<close>

definition location_id_of :: "string \<Rightarrow> db \<Rightarrow> nat" where
  "location_id_of p d =
     (case find (\<lambda>l. loc_place_id l = p) (locations d) of
        Some row \<Rightarrow> loc_id row
      | None \<Rightarrow> Suc (fold max (map loc_id (locations d)) 0))"

text \<open>The rows of the readings table that were imported from a given path.\<close>

definition rows_from :: "string \<Rightarrow> db \<Rightarrow> reading_row list" where
  "rows_from path d = filter (\<lambda>r. r_synced_from r = Some path) (readings d)"

section \<open>Concrete inputs\<close>

text \<open>
  A small archive: two objects with the same place and time stamp under different paths
  with an object that is not JSON between them, one file that is not \<open>.json\<close>, one object
  without \<open>place_id\<close>, and one object whose popularity is \<open>2 ^ 63\<close>; and the database
  after each of the first two objects.
\<close>

definition EMPTY_DB :: db where
  "EMPTY_DB = \<lparr>locations = [], readings = [], sync_log = []\<rparr>"

definition EX_DATA :: reading_data where
  "EX_DATA = \<lparr>j_place_id = JStr ''ChIJy8LxJaZGHRURzNVZXycuQnw'', j_popularity = JInt 42,
               j_timestamp = JStr ''2024-01-28T14:30:05+02:00'', j_day_of_week = JInt 6,
               j_hour = JInt 14, j_is_open = JBool True\<rparr>"

definition EX_BLOB1 :: blob where
  "EX_BLOB1 = \<lparr>blob_name = ''readings/2024/01/28/14-30.json'', blob_content = JsonObject EX_DATA\<rparr>"

definition EX_BLOB2 :: blob where
  "EX_BLOB2 = \<lparr>blob_name = ''readings/2024/01/28/14-31.json'', blob_content = JsonObject EX_DATA\<rparr>"

definition EX_BLOB3 :: blob where
  "EX_BLOB3 = \<lparr>blob_name = ''readings/2024/01/28/15-00.json'', blob_content = NotJson\<rparr>"

definition EX_BLOB4 :: blob where
  "EX_BLOB4 =
     \<lparr>blob_name = ''readings/2024/01/28/16-00.json'',
      blob_content = JsonObject (EX_DATA\<lparr>j_popularity := JInt 9223372036854775808,
                                            j_timestamp := JStr ''2024-01-28T16:00:07+02:00''\<rparr>)\<rparr>"

definition EX_BLOBS :: "blob list" where
  "EX_BLOBS =
     [EX_BLOB1, EX_BLOB3, EX_BLOB2,
      \<lparr>blob_name = ''readings/2024/01/28/notes.txt'', blob_content = NotJson\<rparr>,
      \<lparr>blob_name = ''readings/2024/01/28/15-30.json'',
        blob_content = JsonObject (EX_DATA\<lparr>j_place_id := JNull\<rparr>)\<rparr>,
      EX_BLOB4]"

definition EX_DB1 :: db where
  "EX_DB1 =
    \<lparr>locations =
       [\<lparr>loc_id = 1, loc_name = ''National Library of Israel'',
          loc_name_he = Some [0x5D4, 0x5E1, 0x5E4, 0x5E8, 0x5D9, 0x5D9, 0x5D4, 0x20,
                       0x5D4, 0x5DC, 0x5D0, 0x5D5, 0x5DE, 0x5D9, 0x5EA],
          loc_place_id = ''ChIJy8LxJaZGHRURzNVZXycuQnw'',
          loc_address = Some ''Edmond J. Safra Campus, Givat Ram, Jerusalem''\<rparr>],
      readings =
       [\<lparr>r_location_id = 1, r_popularity = SqlInt 42, r_timestamp = ''2024-01-28T14:30:05+02:00'',
          r_day_of_week = SqlInt 6, r_hour = SqlInt 14, r_is_open = 1,
          r_synced_from = Some ''readings/2024/01/28/14-30.json''\<rparr>],
      sync_log = [''readings/2024/01/28/14-30.json'']\<rparr>"

definition EX_DB2 :: db where
  "EX_DB2 = EX_DB1\<lparr>sync_log := [''readings/2024/01/28/14-30.json'', ''readings/2024/01/28/14-31.json'']\<rparr>"

text \<open>
  Environments of a publish cycle: the four secrets, a messaging provider with one reply
  to every edit and one to every send, two clock readings (a Saturday, when the library
  is closed, and a Monday morning), and a bucket or file holding the message id 42. The
  replies: an edit of a message that is gone, an edit that changes nothing, a send that
  worked, and a send answered with status 200 and the body \<open>{"ok": true}\<close>.
\<close>

definition EX_SECRETS :: "string \<Rightarrow> string option" where
  "EX_SECRETS =
     [''GOOGLE_API_KEY'' \<mapsto> ''key'', ''TELEGRAM_BOT_TOKEN'' \<mapsto> ''123:abc'',
      ''TELEGRAM_CHAT_ID'' \<mapsto> ''@nli_status'', ''PLACE_ID'' \<mapsto> ''ChIJy8LxJaZGHRURzNVZXycuQnw'']"

definition EX_REPLIES :: "http_outcome \<Rightarrow> http_outcome \<Rightarrow> tg_request \<Rightarrow> http_outcome" where
  "EX_REPLIES on_edit on_send req =
     (case req of
        SendMessage token chat msg \<Rightarrow> on_send
      | EditMessageText token chat mid msg \<Rightarrow> on_edit)"

definition NOT_FOUND :: http_outcome where
  "NOT_FOUND = Response 400 ''Bad Request: message to edit not found'' (Some OkFalsy)"

definition NOT_MODIFIED :: http_outcome where
  "NOT_MODIFIED = Response 400 ''Bad Request: message is not modified'' (Some OkFalsy)"

definition SENT_43 :: http_outcome where
  "SENT_43 = Response 200 ''sent'' (Some (OkResult ''43''))"

definition OK_WITHOUT_RESULT :: http_outcome where
  "OK_WITHOUT_RESULT = Response 200 ''{ok: true}'' (Some ResultMissing)"

definition SATURDAY_10 :: local_time where
  "SATURDAY_10 = \<lparr>weekday = 5, hour = 10, hhmm = ''10:00'', isoformat = ''2024-01-27T10:00:00+02:00''\<rparr>"

definition MONDAY_10 :: local_time where
  "MONDAY_10 = \<lparr>weekday = 0, hour = 10, hhmm = ''10:00'', isoformat = ''2024-01-29T10:00:00+02:00''\<rparr>"

definition EX_CLOUD_ENV ::
    "local_time \<Rightarrow> (string \<Rightarrow> string option) \<Rightarrow> crowd_outcome \<Rightarrow> http_outcome \<Rightarrow> http_outcome \<Rightarrow> bool
       \<Rightarrow> cloud_env" where
  "EX_CLOUD_ENV now sec crowd on_edit on_send storage_down =
     \<lparr>clock_entry = now, clock_open = now, clock_save_path = ''readings/2024/01/29/10-00.json'',
      secrets = sec, places = (\<lambda>key place. crowd), tg = EX_REPLIES on_edit on_send,
      storage_client_raises = False,
      state_read_raises = storage_down, state_write_raises = storage_down,
      reading_write_raises = storage_down\<rparr>"

definition EX_LOCAL_ENV :: "local_time \<Rightarrow> http_outcome \<Rightarrow> http_outcome \<Rightarrow> local_env" where
  "EX_LOCAL_ENV now on_edit on_send =
     \<lparr>l_clock_open = now, l_clock_stamp = hhmm now,
      TELEGRAM_BOT_TOKEN = ''123:abc'', TELEGRAM_CHAT_ID = ''@nli_status'',
      GOOGLE_API_KEY = ''key'', PLACE_ID = ''ChIJy8LxJaZGHRURzNVZXycuQnw'',
      l_places = (\<lambda>key place. PlaceData (Some 42)), l_tg = EX_REPLIES on_edit on_send,
      file_read_raises = False, file_write_raises = False\<rparr>"

definition EX_BUCKET :: bucket where
  "EX_BUCKET = \<lparr>state_blob = Some ''42'', reading_blobs = Map.empty\<rparr>"

section \<open>Schedule evaluator and load classifier\<close>

lemma labels_distinct:
  "distinct [(LABEL_UNKNOWN, WHITE_CIRCLE), (LABEL_LOW, GREEN_CIRCLE),
             (LABEL_MEDIUM, YELLOW_CIRCLE), (LABEL_HIGH, RED_CIRCLE)]"
  by (simp add: LABEL_UNKNOWN_def LABEL_LOW_def LABEL_MEDIUM_def LABEL_HIGH_def)

text \<open>
  Claim C3. The load classifier returns one of four pairs, which are pairwise different:
  no popularity gives the unknown label with the white circle; an integer below 30 gives
  the low label with the green circle; an integer from 30 up to 59 gives the medium label
  with the yellow circle; an integer of 60 or more gives the high label with the red circle.
\<close>

theorem classify_load_buckets:
  "classify_load None = (LABEL_UNKNOWN, WHITE_CIRCLE)
   \<and> (\<forall>x. x < 30 \<longrightarrow> classify_load (Some x) = (LABEL_LOW, GREEN_CIRCLE))
   \<and> (\<forall>x. 30 \<le> x \<and> x < 60 \<longrightarrow> classify_load (Some x) = (LABEL_MEDIUM, YELLOW_CIRCLE))
   \<and> (\<forall>x. 60 \<le> x \<longrightarrow> classify_load (Some x) = (LABEL_HIGH, RED_CIRCLE))
   \<and> distinct [(LABEL_UNKNOWN, WHITE_CIRCLE), (LABEL_LOW, GREEN_CIRCLE),
                (LABEL_MEDIUM, YELLOW_CIRCLE), (LABEL_HIGH, RED_CIRCLE)]"
  using labels_distinct by (simp add: classify_load_def)

theorem classify_load_buckets_witness:
  "(29::int) < 30 \<and> classify_load (Some 29) = (LABEL_LOW, GREEN_CIRCLE)
   \<and> (30::int) \<le> 30 \<and> (30::int) < 60 \<and> classify_load (Some 30) = (LABEL_MEDIUM, YELLOW_CIRCLE)
   \<and> (30::int) \<le> 59 \<and> (59::int) < 60 \<and> classify_load (Some 59) = (LABEL_MEDIUM, YELLOW_CIRCLE)
   \<and> (60::int) \<le> 60 \<and> classify_load (Some 60) = (LABEL_HIGH, RED_CIRCLE)
   \<and> classify_load None = (LABEL_UNKNOWN, WHITE_CIRCLE)"
  using classify_load_buckets by simp

text \<open>
  Claim C4. For every weekday and hour the schedule evaluator answers closed when the
  weekday has no entry in the operating-hours table, and otherwise answers open exactly
  when the hour lies in the half-open interval from the opening hour to the closing hour.
  On Monday, whose entry is (9, 20), hour 9 is open, hours 8 and 20 are closed.
\<close>

theorem is_library_open_spec:
  "(OPERATING_HOURS (weekday now) = None \<longrightarrow> \<not> is_library_open now)
   \<and> (\<forall>open_hour close_hour. OPERATING_HOURS (weekday now) = Some (open_hour, close_hour) \<longrightarrow>
         (is_library_open now \<longleftrightarrow> open_hour \<le> hour now \<and> hour now < close_hour))
   \<and> OPERATING_HOURS 0 = Some (9, 20)
   \<and> is_library_open (now\<lparr>weekday := 0, hour := 9\<rparr>)
   \<and> \<not> is_library_open (now\<lparr>weekday := 0, hour := 8\<rparr>)
   \<and> \<not> is_library_open (now\<lparr>weekday := 0, hour := 20\<rparr>)"
  by (simp add: is_library_open_def OPERATING_HOURS_def)

theorem is_library_open_spec_witness:
  "OPERATING_HOURS 5 = None
   \<and> \<not> is_library_open \<lparr>weekday = 5, hour = 10, hhmm = ''10:00'', isoformat = ''''\<rparr>
   \<and> OPERATING_HOURS 4 = Some (9, 13)
   \<and> is_library_open \<lparr>weekday = 4, hour = 12, hhmm = ''12:59'', isoformat = ''''\<rparr>
   \<and> \<not> is_library_open \<lparr>weekday = 4, hour = 13, hhmm = ''13:00'', isoformat = ''''\<rparr>"
  using is_library_open_spec [of "\<lparr>weekday = 5, hour = 10, hhmm = ''10:00'', isoformat = ''''\<rparr>"]
        is_library_open_spec [of "\<lparr>weekday = 4, hour = 12, hhmm = ''12:59'', isoformat = ''''\<rparr>"]
        is_library_open_spec [of "\<lparr>weekday = 4, hour = 13, hhmm = ''13:00'', isoformat = ''''\<rparr>"]
  by (simp add: OPERATING_HOURS_def)

section \<open>The publish cycle\<close>

subsection \<open>Case analysis of the cycle\<close>

lemma send_then_save_cases:
  assumes "send_then_save e token chat msg b = (r, b', fx)"
  shows "(\<exists>ex. send_outcome (tg e (SendMessage token chat msg)) = Inl ex
            \<and> r = Inl ex \<and> b' = b \<and> fx = [Telegram (SendMessage token chat msg)])
       \<or> ((send_outcome (tg e (SendMessage token chat msg)) = Inr None
             \<or> send_outcome (tg e (SendMessage token chat msg)) = Inr (Some []))
            \<and> r = Inr () \<and> b' = b \<and> fx = [Telegram (SendMessage token chat msg)])
       \<or> (\<exists>mid. send_outcome (tg e (SendMessage token chat msg)) = Inr (Some mid) \<and> mid \<noteq> []
            \<and> r = Inr () \<and> b' = save_last_message_id e b mid
            \<and> fx = [Telegram (SendMessage token chat msg), WriteState mid])"
  using assms
  by (auto simp: send_then_save_def send_telegram_message_def
           split: option.splits if_splits sum.splits)

lemma publish_status_cases:
  assumes "publish_status e token chat msg b = (r, b', fx)"
  shows "(\<exists>mid. get_last_message_id e b = Some mid \<and> mid \<noteq> []
            \<and> edit_outcome (tg e (EditMessageText token chat mid msg))
            \<and> r = Inr () \<and> b' = b
            \<and> fx = [ReadState, Telegram (EditMessageText token chat mid msg)])
       \<or> (\<exists>mid fx'. get_last_message_id e b = Some mid \<and> mid \<noteq> []
            \<and> \<not> edit_outcome (tg e (EditMessageText token chat mid msg))
            \<and> send_then_save e token chat msg b = (r, b', fx')
            \<and> fx = ReadState # Telegram (EditMessageText token chat mid msg) # fx')
       \<or> (\<exists>fx'. (get_last_message_id e b = None \<or> get_last_message_id e b = Some [])
            \<and> send_then_save e token chat msg b = (r, b', fx')
            \<and> fx = ReadState # fx')"
  using assms
  by (auto simp: publish_status_def edit_telegram_message_def
           split: option.splits if_splits prod.splits)

lemma save_reading_state: "state_blob (save_reading e b r) = state_blob b"
  by (simp add: save_reading_def)

lemma get_last_message_id_save_reading:
  "get_last_message_id e (save_reading e b r) = get_last_message_id e b"
  by (simp add: get_last_message_id_def save_reading_state)

lemma monitor_crowds_body_cases:
  assumes "monitor_crowds_body e key token chat place b = (resp, b', fx)"
  shows "(storage_client_raises e \<and> resp = Inl DefaultCredentialsError \<and> b' = b \<and> fx = [])
       \<or> (\<not> storage_client_raises e
           \<and> (\<exists>msg b1 pfx fx' r.
                 state_blob b1 = state_blob b
               \<and> get_last_message_id e b1 = get_last_message_id e b
               \<and> publish_status e token chat msg b1 = (r, b', fx') \<and> fx = pfx @ fx'
               \<and> (\<forall>x \<in> set pfx. (\<forall>q. x \<noteq> Telegram q) \<and> (\<forall>s. x \<noteq> WriteState s))
               \<and> (case r of Inl ex \<Rightarrow> resp = Inl ex
                            | Inr u \<Rightarrow> (\<exists>body. resp = Inr (body, 200)))))"
proof (cases "storage_client_raises e")
  case True
  with assms show ?thesis by (simp add: monitor_crowds_body_def)
next
  case sc: False
  show ?thesis
  proof (cases "is_library_open (clock_open e)")
    case False
    obtain r b2 fx' where p: "publish_status e token chat ClosedText b = (r, b2, fx')"
      by (cases "publish_status e token chat ClosedText b")
    with assms sc False have "b' = b2" "fx = fx'"
        "(case r of Inl ex \<Rightarrow> resp = Inl ex | Inr u \<Rightarrow> (\<exists>body. resp = Inr (body, 200)))"
      by (auto simp: monitor_crowds_body_def split: sum.splits)
    with p have "\<exists>msg b1 pfx fx' r.
                 state_blob b1 = state_blob b
               \<and> get_last_message_id e b1 = get_last_message_id e b
               \<and> publish_status e token chat msg b1 = (r, b', fx') \<and> fx = pfx @ fx'
               \<and> (\<forall>x \<in> set pfx. (\<forall>q. x \<noteq> Telegram q) \<and> (\<forall>s. x \<noteq> WriteState s))
               \<and> (case r of Inl ex \<Rightarrow> resp = Inl ex
                            | Inr u \<Rightarrow> (\<exists>body. resp = Inr (body, 200)))"
      apply -
      apply (rule exI [of _ ClosedText], rule exI [of _ b], rule exI [of _ "[]"],
             rule exI [of _ fx'], rule exI [of _ r])
      apply simp
      done
    with sc show ?thesis by simp
  next
    case True
    let ?pop = "get_crowd_data (places e key place)"
    let ?rd = "\<lparr>rd_timestamp = isoformat (clock_entry e), rd_place_id = place,
               rd_popularity = ?pop, rd_day_of_week = weekday (clock_entry e),
               rd_hour = hour (clock_entry e), rd_is_open = True\<rparr>"
    let ?msg = "build_message ?pop (snd (classify_load ?pop)) (fst (classify_load ?pop))
                   (hhmm (clock_entry e))"
    let ?pfx = "[FetchCrowd key place, WriteReading (clock_save_path e)]"
    obtain r b2 fx' where p: "publish_status e token chat ?msg (save_reading e b ?rd) = (r, b2, fx')"
      by (cases "publish_status e token chat ?msg (save_reading e b ?rd)")
    with assms sc True have "b' = b2" "fx = ?pfx @ fx'"
        "(case r of Inl ex \<Rightarrow> resp = Inl ex | Inr u \<Rightarrow> (\<exists>body. resp = Inr (body, 200)))"
      by (auto simp: monitor_crowds_body_def Let_def split: sum.splits prod.splits)
    with p have "\<exists>msg b1 pfx fx' r.
                 state_blob b1 = state_blob b
               \<and> get_last_message_id e b1 = get_last_message_id e b
               \<and> publish_status e token chat msg b1 = (r, b', fx') \<and> fx = pfx @ fx'
               \<and> (\<forall>x \<in> set pfx. (\<forall>q. x \<noteq> Telegram q) \<and> (\<forall>s. x \<noteq> WriteState s))
               \<and> (case r of Inl ex \<Rightarrow> resp = Inl ex
                            | Inr u \<Rightarrow> (\<exists>body. resp = Inr (body, 200)))"
      apply -
      apply (rule exI [of _ ?msg], rule exI [of _ "save_reading e b ?rd"], rule exI [of _ ?pfx],
             rule exI [of _ fx'], rule exI [of _ r])
      apply (simp add: save_reading_state get_last_message_id_save_reading)
      done
    with sc show ?thesis by simp
  qed
qed

lemma monitor_crowds_secret_failure:
  assumes "monitor_crowds e b = (resp, b', fx)" and "\<exists>k \<in> set SECRET_IDS. secrets e k = None"
  shows "resp = Inr (''Error getting secrets'', 500) \<and> b' = b
         \<and> (\<forall>x \<in> set fx. \<exists>k. x = GetSecret k)"
proof (cases "secrets e ''GOOGLE_API_KEY''")
  case None
  with assms(1) show ?thesis by (auto simp: monitor_crowds_def)
next
  case s1: (Some key)
  show ?thesis
  proof (cases "secrets e ''TELEGRAM_BOT_TOKEN''")
    case None
    with assms(1) s1 show ?thesis by (auto simp: monitor_crowds_def)
  next
    case s2: (Some token)
    show ?thesis
    proof (cases "secrets e ''TELEGRAM_CHAT_ID''")
      case None
      with assms(1) s1 s2 show ?thesis by (auto simp: monitor_crowds_def)
    next
      case s3: (Some chat)
      show ?thesis
      proof (cases "secrets e ''PLACE_ID''")
        case None
        with assms(1) s1 s2 s3 show ?thesis by (auto simp: monitor_crowds_def)
      next
        case s4: (Some place)
        from assms(2) s1 s2 s3 s4 show ?thesis by (simp add: SECRET_IDS_def)
      qed
    qed
  qed
qed

lemma monitor_crowds_secrets_ok:
  assumes "monitor_crowds e b = (resp, b', fx)" and "\<forall>k \<in> set SECRET_IDS. secrets e k \<noteq> None"
  shows "(storage_client_raises e \<and> resp = Inl DefaultCredentialsError \<and> b' = b
            \<and> (\<forall>x \<in> set fx. \<exists>k. x = GetSecret k))
       \<or> (\<not> storage_client_raises e
           \<and> (\<exists>token chat msg b1 pfx fx' r.
                 state_blob b1 = state_blob b
               \<and> get_last_message_id e b1 = get_last_message_id e b
               \<and> publish_status e token chat msg b1 = (r, b', fx') \<and> fx = pfx @ fx'
               \<and> (\<forall>x \<in> set pfx. (\<forall>q. x \<noteq> Telegram q) \<and> (\<forall>s. x \<noteq> WriteState s))
               \<and> (case r of Inl ex \<Rightarrow> resp = Inl ex
                            | Inr u \<Rightarrow> (\<exists>body. resp = Inr (body, 200)))))"
proof -
  from assms(2) obtain key where s1: "secrets e ''GOOGLE_API_KEY'' = Some key"
    by (cases "secrets e ''GOOGLE_API_KEY''") (simp_all add: SECRET_IDS_def)
  from assms(2) obtain token where s2: "secrets e ''TELEGRAM_BOT_TOKEN'' = Some token"
    by (cases "secrets e ''TELEGRAM_BOT_TOKEN''") (simp_all add: SECRET_IDS_def)
  from assms(2) obtain chat where s3: "secrets e ''TELEGRAM_CHAT_ID'' = Some chat"
    by (cases "secrets e ''TELEGRAM_CHAT_ID''") (simp_all add: SECRET_IDS_def)
  from assms(2) obtain place where s4: "secrets e ''PLACE_ID'' = Some place"
    by (cases "secrets e ''PLACE_ID''") (simp_all add: SECRET_IDS_def)
  let ?sec = "[GetSecret ''GOOGLE_API_KEY'', GetSecret ''TELEGRAM_BOT_TOKEN'',
               GetSecret ''TELEGRAM_CHAT_ID'', GetSecret ''PLACE_ID'']"
  obtain resp0 b0 fx0 where body: "monitor_crowds_body e key token chat place b = (resp0, b0, fx0)"
    by (cases "monitor_crowds_body e key token chat place b")
  with assms(1) s1 s2 s3 s4 have eq: "resp = resp0" "b' = b0" "fx = ?sec @ fx0"
    by (simp_all add: monitor_crowds_def)
  from monitor_crowds_body_cases [OF body]
  show ?thesis
  proof (elim disjE conjE exE)
    assume "storage_client_raises e" "resp0 = Inl DefaultCredentialsError" "b0 = b" "fx0 = []"
    with eq show ?thesis by auto
  next
    fix msg b1 pfx fx' r
    assume sc: "\<not> storage_client_raises e"
      and c: "state_blob b1 = state_blob b"
        "get_last_message_id e b1 = get_last_message_id e b"
        "publish_status e token chat msg b1 = (r, b0, fx')" "fx0 = pfx @ fx'"
        "\<forall>x \<in> set pfx. (\<forall>q. x \<noteq> Telegram q) \<and> (\<forall>s. x \<noteq> WriteState s)"
        "case r of Inl ex \<Rightarrow> resp0 = Inl ex | Inr u \<Rightarrow> (\<exists>body. resp0 = Inr (body, 200))"
    have "\<exists>token chat msg b1 pfx fx' r.
                 state_blob b1 = state_blob b
               \<and> get_last_message_id e b1 = get_last_message_id e b
               \<and> publish_status e token chat msg b1 = (r, b', fx') \<and> fx = pfx @ fx'
               \<and> (\<forall>x \<in> set pfx. (\<forall>q. x \<noteq> Telegram q) \<and> (\<forall>s. x \<noteq> WriteState s))
               \<and> (case r of Inl ex \<Rightarrow> resp = Inl ex
                            | Inr u \<Rightarrow> (\<exists>body. resp = Inr (body, 200)))"
      apply (rule exI [of _ token], rule exI [of _ chat], rule exI [of _ msg], rule exI [of _ b1],
             rule exI [of _ "?sec @ pfx"], rule exI [of _ fx'], rule exI [of _ r])
      using c eq apply (simp split: sum.splits)
      done
    with sc show ?thesis by simp
  qed
qed

lemma is_send_Telegram: "is_send x \<Longrightarrow> \<exists>q. x = Telegram q"
  by (cases x rule: is_send.cases) simp_all

lemma filter_is_send_none:
  "\<forall>x \<in> set pfx. (\<forall>q. x \<noteq> Telegram q) \<and> (\<forall>s. x \<noteq> WriteState s) \<Longrightarrow>
     filter is_send pfx = []"
  by (auto simp: filter_empty_conv dest: is_send_Telegram)

lemma filter_is_send_secrets:
  "\<forall>x \<in> set fx. \<exists>k. x = GetSecret k \<Longrightarrow> filter is_send fx = []"
  by (auto simp: filter_empty_conv dest: is_send_Telegram)

lemma not_modified_edit_outcome:
  "sublist ''message is not modified'' body \<Longrightarrow> edit_outcome (Response 400 body js)"
  by (simp add: edit_outcome_def)




lemma publish_status_not_modified:
  assumes "publish_status e token chat msg b = (r, b', fx)"
    and "Telegram (EditMessageText tok ch mid t) \<in> set fx"
    and "edit_outcome (tg e (EditMessageText tok ch mid t))"
  shows "r = Inr () \<and> b' = b \<and> filter is_send fx = [] \<and> get_last_message_id e b = Some mid
         \<and> mid \<noteq> [] \<and> (\<forall>s. WriteState s \<notin> set fx)"
  using publish_status_cases [OF assms(1)] assms(2,3)
  by (auto dest!: send_then_save_cases)

lemma publish_status_fallback:
  assumes "publish_status e token chat msg b = (r, b', fx)"
    and "Telegram (EditMessageText tok ch mid t) \<in> set fx"
    and "\<not> edit_outcome (tg e (EditMessageText tok ch mid t))"
  shows "Telegram (SendMessage tok ch t) \<in> set fx
       \<and> (\<forall>new. send_outcome (tg e (SendMessage tok ch t)) = Inr (Some new) \<and> new \<noteq> []
                \<and> \<not> state_write_raises e
             \<longrightarrow> state_blob b' = Some new)"
  using publish_status_cases [OF assms(1)] assms(2,3)
  by (auto dest!: send_then_save_cases simp: save_last_message_id_def)

lemma send_telegram_message_local_cases:
  assumes "send_telegram_message_local e msg file = (r, file', fx)"
  shows "(\<exists>ex. send_outcome (l_tg e (SendMessage (TELEGRAM_BOT_TOKEN e) (TELEGRAM_CHAT_ID e) msg))
                 = Inl ex
            \<and> r = Inl ex \<and> file' = file
            \<and> fx = [Telegram (SendMessage (TELEGRAM_BOT_TOKEN e) (TELEGRAM_CHAT_ID e) msg)])
       \<or> (send_outcome (l_tg e (SendMessage (TELEGRAM_BOT_TOKEN e) (TELEGRAM_CHAT_ID e) msg))
             = Inr None
            \<and> r = Inr () \<and> file' = file
            \<and> fx = [Telegram (SendMessage (TELEGRAM_BOT_TOKEN e) (TELEGRAM_CHAT_ID e) msg)])
       \<or> (\<exists>mid. send_outcome (l_tg e (SendMessage (TELEGRAM_BOT_TOKEN e) (TELEGRAM_CHAT_ID e) msg))
                   = Inr (Some mid)
            \<and> fx = [Telegram (SendMessage (TELEGRAM_BOT_TOKEN e) (TELEGRAM_CHAT_ID e) msg),
                     WriteState mid]
            \<and> (if file_write_raises e then r = Inl OSError \<and> file' = file
                else r = Inr () \<and> file' = Some mid))"
  using assms
  by (auto simp: send_telegram_message_local_def save_last_message_id_local_def Let_def
           split: option.splits sum.splits if_splits)

lemma run_check_cases:
  assumes "run_check e file = (r, file', fx)"
  shows "(file_read_raises e \<and> r = Inl OSError \<and> file' = file
            \<and> (\<forall>x \<in> set fx. (\<forall>q. x \<noteq> Telegram q) \<and> (\<forall>s. x \<noteq> WriteState s)))
       \<or> (\<not> file_read_raises e
           \<and> (\<exists>msg pfx rest. fx = pfx @ ReadState # rest
               \<and> (\<forall>x \<in> set pfx. (\<forall>q. x \<noteq> Telegram q) \<and> (\<forall>s. x \<noteq> WriteState s))
               \<and> (is_library_open (l_clock_open e) \<or> msg = ClosedText)
               \<and> ((\<exists>mid. get_last_message_id_local e file = Inr (Some mid) \<and> mid \<noteq> []
                      \<and> (edit_outcome (l_tg e (EditMessageText (TELEGRAM_BOT_TOKEN e)
                                                 (TELEGRAM_CHAT_ID e) mid msg))
                          \<or> \<not> is_library_open (l_clock_open e))
                      \<and> r = Inr () \<and> file' = file
                      \<and> rest = [Telegram (EditMessageText (TELEGRAM_BOT_TOKEN e)
                                            (TELEGRAM_CHAT_ID e) mid msg)])
                  \<or> (\<exists>mid fx'. get_last_message_id_local e file = Inr (Some mid) \<and> mid \<noteq> []
                      \<and> \<not> edit_outcome (l_tg e (EditMessageText (TELEGRAM_BOT_TOKEN e)
                                                   (TELEGRAM_CHAT_ID e) mid msg))
                      \<and> is_library_open (l_clock_open e)
                      \<and> send_telegram_message_local e msg file = (r, file', fx')
                      \<and> rest = Telegram (EditMessageText (TELEGRAM_BOT_TOKEN e)
                                            (TELEGRAM_CHAT_ID e) mid msg) # fx')
                  \<or> ((get_last_message_id_local e file = Inr None
                        \<or> get_last_message_id_local e file = Inr (Some []))
                      \<and> send_telegram_message_local e msg file = (r, file', rest)))))"
proof (cases "file_read_raises e")
  case True
  with assms show ?thesis
    by (auto simp: run_check_def get_last_message_id_local_def Let_def
             split: prod.splits if_splits)
next
  case rd: False
  show ?thesis
  proof (cases "is_library_open (l_clock_open e)")
    case False
    have "\<exists>msg pfx rest. fx = pfx @ ReadState # rest
               \<and> (\<forall>x \<in> set pfx. (\<forall>q. x \<noteq> Telegram q) \<and> (\<forall>s. x \<noteq> WriteState s))
               \<and> (is_library_open (l_clock_open e) \<or> msg = ClosedText)
               \<and> ((\<exists>mid. get_last_message_id_local e file = Inr (Some mid) \<and> mid \<noteq> []
                      \<and> (edit_outcome (l_tg e (EditMessageText (TELEGRAM_BOT_TOKEN e)
                                                 (TELEGRAM_CHAT_ID e) mid msg))
                          \<or> \<not> is_library_open (l_clock_open e))
                      \<and> r = Inr () \<and> file' = file
                      \<and> rest = [Telegram (EditMessageText (TELEGRAM_BOT_TOKEN e)
                                            (TELEGRAM_CHAT_ID e) mid msg)])
                  \<or> (\<exists>mid fx'. get_last_message_id_local e file = Inr (Some mid) \<and> mid \<noteq> []
                      \<and> \<not> edit_outcome (l_tg e (EditMessageText (TELEGRAM_BOT_TOKEN e)
                                                   (TELEGRAM_CHAT_ID e) mid msg))
                      \<and> is_library_open (l_clock_open e)
                      \<and> send_telegram_message_local e msg file = (r, file', fx')
                      \<and> rest = Telegram (EditMessageText (TELEGRAM_BOT_TOKEN e)
                                            (TELEGRAM_CHAT_ID e) mid msg) # fx')
                  \<or> ((get_last_message_id_local e file = Inr None
                        \<or> get_last_message_id_local e file = Inr (Some []))
                      \<and> send_telegram_message_local e msg file = (r, file', rest)))"
      apply (rule exI [of _ ClosedText], rule exI [of _ "[]"], rule exI [of _ "tl fx"])
      using assms False rd
      apply (auto simp: run_check_def edit_telegram_message_local_def
                        get_last_message_id_local_def Let_def
                  split: option.splits if_splits prod.splits)
      done
    with rd show ?thesis by simp
  next
    case True
    let ?pop = "get_crowd_data (l_places e (GOOGLE_API_KEY e) (PLACE_ID e))"
    let ?msg = "build_message ?pop (snd (classify_load ?pop)) (fst (classify_load ?pop))
                   (l_clock_stamp e)"
    have "\<exists>msg pfx rest. fx = pfx @ ReadState # rest
               \<and> (\<forall>x \<in> set pfx. (\<forall>q. x \<noteq> Telegram q) \<and> (\<forall>s. x \<noteq> WriteState s))
               \<and> (is_library_open (l_clock_open e) \<or> msg = ClosedText)
               \<and> ((\<exists>mid. get_last_message_id_local e file = Inr (Some mid) \<and> mid \<noteq> []
                      \<and> (edit_outcome (l_tg e (EditMessageText (TELEGRAM_BOT_TOKEN e)
                                                 (TELEGRAM_CHAT_ID e) mid msg))
                          \<or> \<not> is_library_open (l_clock_open e))
                      \<and> r = Inr () \<and> file' = file
                      \<and> rest = [Telegram (EditMessageText (TELEGRAM_BOT_TOKEN e)
                                            (TELEGRAM_CHAT_ID e) mid msg)])
                  \<or> (\<exists>mid fx'. get_last_message_id_local e file = Inr (Some mid) \<and> mid \<noteq> []
                      \<and> \<not> edit_outcome (l_tg e (EditMessageText (TELEGRAM_BOT_TOKEN e)
                                                   (TELEGRAM_CHAT_ID e) mid msg))
                      \<and> is_library_open (l_clock_open e)
                      \<and> send_telegram_message_local e msg file = (r, file', fx')
                      \<and> rest = Telegram (EditMessageText (TELEGRAM_BOT_TOKEN e)
                                            (TELEGRAM_CHAT_ID e) mid msg) # fx')
                  \<or> ((get_last_message_id_local e file = Inr None
                        \<or> get_last_message_id_local e file = Inr (Some []))
                      \<and> send_telegram_message_local e msg file = (r, file', rest)))"
      apply (rule exI [of _ ?msg], rule exI [of _ "[FetchCrowd (GOOGLE_API_KEY e) (PLACE_ID e)]"],
             rule exI [of _ "tl (tl fx)"])
      using assms True rd
      apply (auto simp: run_check_def edit_telegram_message_local_def
                        get_last_message_id_local_def Let_def
                  split: option.splits if_splits prod.splits)
      done
    with rd show ?thesis by simp
  qed
qed

lemma run_check_rest:
  assumes "run_check e file = (r, file', fx)"
    and "Telegram q \<in> set fx"
  obtains msg pfx rest where "fx = pfx @ ReadState # rest"
    and "\<forall>x \<in> set pfx. (\<forall>q. x \<noteq> Telegram q) \<and> (\<forall>s. x \<noteq> WriteState s)"
    and "Telegram q \<in> set rest"
    and "(\<exists>mid. get_last_message_id_local e file = Inr (Some mid) \<and> mid \<noteq> []
            \<and> (edit_outcome (l_tg e (EditMessageText (TELEGRAM_BOT_TOKEN e)
                                       (TELEGRAM_CHAT_ID e) mid msg))
                \<or> \<not> is_library_open (l_clock_open e))
            \<and> r = Inr () \<and> file' = file
            \<and> rest = [Telegram (EditMessageText (TELEGRAM_BOT_TOKEN e)
                                  (TELEGRAM_CHAT_ID e) mid msg)])
        \<or> (\<exists>mid fx'. get_last_message_id_local e file = Inr (Some mid) \<and> mid \<noteq> []
            \<and> \<not> edit_outcome (l_tg e (EditMessageText (TELEGRAM_BOT_TOKEN e)
                                         (TELEGRAM_CHAT_ID e) mid msg))
            \<and> is_library_open (l_clock_open e)
            \<and> send_telegram_message_local e msg file = (r, file', fx')
            \<and> rest = Telegram (EditMessageText (TELEGRAM_BOT_TOKEN e)
                                  (TELEGRAM_CHAT_ID e) mid msg) # fx')
        \<or> ((get_last_message_id_local e file = Inr None
              \<or> get_last_message_id_local e file = Inr (Some []))
            \<and> send_telegram_message_local e msg file = (r, file', rest))"
proof -
  from run_check_cases [OF assms(1)] assms(2)
  obtain msg pfx rest where a: "fx = pfx @ ReadState # rest"
    and b: "\<forall>x \<in> set pfx. (\<forall>q. x \<noteq> Telegram q) \<and> (\<forall>s. x \<noteq> WriteState s)"
    and c: "(\<exists>mid. get_last_message_id_local e file = Inr (Some mid) \<and> mid \<noteq> []
            \<and> (edit_outcome (l_tg e (EditMessageText (TELEGRAM_BOT_TOKEN e)
                                       (TELEGRAM_CHAT_ID e) mid msg))
                \<or> \<not> is_library_open (l_clock_open e))
            \<and> r = Inr () \<and> file' = file
            \<and> rest = [Telegram (EditMessageText (TELEGRAM_BOT_TOKEN e)
                                  (TELEGRAM_CHAT_ID e) mid msg)])
        \<or> (\<exists>mid fx'. get_last_message_id_local e file = Inr (Some mid) \<and> mid \<noteq> []
            \<and> \<not> edit_outcome (l_tg e (EditMessageText (TELEGRAM_BOT_TOKEN e)
                                         (TELEGRAM_CHAT_ID e) mid msg))
            \<and> is_library_open (l_clock_open e)
            \<and> send_telegram_message_local e msg file = (r, file', fx')
            \<and> rest = Telegram (EditMessageText (TELEGRAM_BOT_TOKEN e)
                                  (TELEGRAM_CHAT_ID e) mid msg) # fx')
        \<or> ((get_last_message_id_local e file = Inr None
              \<or> get_last_message_id_local e file = Inr (Some []))
            \<and> send_telegram_message_local e msg file = (r, file', rest))"
    by (elim disjE conjE exE) blast+
  from assms(2) a b have m: "Telegram q \<in> set rest" by auto
  show ?thesis by (rule that [OF a b m c])
qed

lemma run_check_finish:
  assumes "fx = pfx @ ReadState # rest"
    and "\<forall>x \<in> set pfx. (\<forall>q. x \<noteq> Telegram q) \<and> (\<forall>s. x \<noteq> WriteState s)"
  shows "filter is_send fx = filter is_send rest"
    and "(\<forall>s. WriteState s \<notin> set fx) \<longleftrightarrow> (\<forall>s. WriteState s \<notin> set rest)"
  using assms by (auto simp: filter_is_send_none)



lemma run_check_not_modified:
  assumes "run_check e file = (r, file', fx)"
    and "Telegram (EditMessageText tok ch mid t) \<in> set fx"
    and "edit_outcome (l_tg e (EditMessageText tok ch mid t))"
  shows "r = Inr () \<and> file' = file \<and> get_last_message_id_local e file = Inr (Some mid)
         \<and> mid \<noteq> [] \<and> filter is_send fx = [] \<and> (\<forall>s. WriteState s \<notin> set fx)"
proof -
  from assms(1,2) obtain msg pfx rest where fx: "fx = pfx @ ReadState # rest"
    and pfx: "\<forall>x \<in> set pfx. (\<forall>q. x \<noteq> Telegram q) \<and> (\<forall>s. x \<noteq> WriteState s)"
    and mem: "Telegram (EditMessageText tok ch mid t) \<in> set rest"
    and d: "(\<exists>m. get_last_message_id_local e file = Inr (Some m) \<and> m \<noteq> []
              \<and> r = Inr () \<and> file' = file
              \<and> rest = [Telegram (EditMessageText (TELEGRAM_BOT_TOKEN e)
                                    (TELEGRAM_CHAT_ID e) m msg)])
          \<or> (\<exists>m fx'. \<not> edit_outcome (l_tg e (EditMessageText (TELEGRAM_BOT_TOKEN e)
                                               (TELEGRAM_CHAT_ID e) m msg))
              \<and> send_telegram_message_local e msg file = (r, file', fx')
              \<and> rest = Telegram (EditMessageText (TELEGRAM_BOT_TOKEN e)
                                    (TELEGRAM_CHAT_ID e) m msg) # fx')
          \<or> send_telegram_message_local e msg file = (r, file', rest)"
    by (rule run_check_rest) blast
  have "r = Inr () \<and> file' = file \<and> get_last_message_id_local e file = Inr (Some mid)
         \<and> mid \<noteq> [] \<and> filter is_send rest = [] \<and> (\<forall>s. WriteState s \<notin> set rest)"
    using d
  proof (elim disjE exE conjE)
    fix m
    assume "get_last_message_id_local e file = Inr (Some m)" "m \<noteq> []" "r = Inr ()" "file' = file"
      and "rest = [Telegram (EditMessageText (TELEGRAM_BOT_TOKEN e) (TELEGRAM_CHAT_ID e) m msg)]"
    with mem show ?thesis by simp
  next
    fix m fx'
    assume ne: "\<not> edit_outcome (l_tg e (EditMessageText (TELEGRAM_BOT_TOKEN e)
                                               (TELEGRAM_CHAT_ID e) m msg))"
      and s: "send_telegram_message_local e msg file = (r, file', fx')"
      and rr: "rest = Telegram (EditMessageText (TELEGRAM_BOT_TOKEN e)
                                    (TELEGRAM_CHAT_ID e) m msg) # fx'"
    from send_telegram_message_local_cases [OF s] mem rr ne assms(3)
    show ?thesis by auto
  next
    assume s: "send_telegram_message_local e msg file = (r, file', rest)"
    from send_telegram_message_local_cases [OF s] mem
    show ?thesis by auto
  qed
  with run_check_finish [OF fx pfx] show ?thesis by simp
qed

lemma run_check_open_fallback:
  assumes "run_check e file = (r, file', fx)"
    and "is_library_open (l_clock_open e)"
    and "Telegram (EditMessageText tok ch mid t) \<in> set fx"
    and "\<not> edit_outcome (l_tg e (EditMessageText tok ch mid t))"
  shows "Telegram (SendMessage tok ch t) \<in> set fx
       \<and> (\<forall>new. send_outcome (l_tg e (SendMessage tok ch t)) = Inr (Some new)
                \<and> \<not> file_write_raises e
             \<longrightarrow> file' = Some new)"
proof -
  from assms(1,3) obtain msg pfx rest where fx: "fx = pfx @ ReadState # rest"
    and mem: "Telegram (EditMessageText tok ch mid t) \<in> set rest"
    and d: "(\<exists>m. (edit_outcome (l_tg e (EditMessageText (TELEGRAM_BOT_TOKEN e)
                                             (TELEGRAM_CHAT_ID e) m msg))
                  \<or> \<not> is_library_open (l_clock_open e))
              \<and> rest = [Telegram (EditMessageText (TELEGRAM_BOT_TOKEN e)
                                    (TELEGRAM_CHAT_ID e) m msg)])
          \<or> (\<exists>m fx'. send_telegram_message_local e msg file = (r, file', fx')
              \<and> rest = Telegram (EditMessageText (TELEGRAM_BOT_TOKEN e)
                                    (TELEGRAM_CHAT_ID e) m msg) # fx')
          \<or> send_telegram_message_local e msg file = (r, file', rest)"
    by (rule run_check_rest) blast
  have "Telegram (SendMessage tok ch t) \<in> set rest
       \<and> (\<forall>new. send_outcome (l_tg e (SendMessage tok ch t)) = Inr (Some new)
                \<and> \<not> file_write_raises e
             \<longrightarrow> file' = Some new)"
    using d
  proof (elim disjE exE conjE)
    fix m
    assume "edit_outcome (l_tg e (EditMessageText (TELEGRAM_BOT_TOKEN e) (TELEGRAM_CHAT_ID e) m msg))"
      and "rest = [Telegram (EditMessageText (TELEGRAM_BOT_TOKEN e) (TELEGRAM_CHAT_ID e) m msg)]"
    with mem assms(4) show ?thesis by auto
  next
    fix m
    assume "\<not> is_library_open (l_clock_open e)"
    with assms(2) show ?thesis by simp
  next
    fix m fx'
    assume s: "send_telegram_message_local e msg file = (r, file', fx')"
      and rr: "rest = Telegram (EditMessageText (TELEGRAM_BOT_TOKEN e)
                                    (TELEGRAM_CHAT_ID e) m msg) # fx'"
    from send_telegram_message_local_cases [OF s] mem rr
    show ?thesis by auto
  next
    assume s: "send_telegram_message_local e msg file = (r, file', rest)"
    from send_telegram_message_local_cases [OF s] mem
    show ?thesis by auto
  qed
  then show ?thesis by (simp add: fx)
qed

subsection \<open>Evaluation on the concrete inputs\<close>

lemmas ex_pub_defs = EX_SECRETS_def EX_REPLIES_def NOT_FOUND_def NOT_MODIFIED_def SENT_43_def
  OK_WITHOUT_RESULT_def SATURDAY_10_def MONDAY_10_def EX_CLOUD_ENV_def EX_LOCAL_ENV_def
  EX_BUCKET_def

lemmas pub_defs = run_check_def monitor_crowds_def monitor_crowds_body_def publish_status_def
  send_then_save_def send_telegram_message_def edit_telegram_message_def
  send_telegram_message_local_def edit_telegram_message_local_def
  get_last_message_id_def get_last_message_id_local_def save_last_message_id_def
  save_last_message_id_local_def save_reading_def get_crowd_data_def build_message_def
  edit_outcome_def send_outcome_def read_message_id_def raise_for_status_def
  is_library_open_def OPERATING_HOURS_def strip_def is_space_def Let_def

lemma str_int_42: "str_int 42 = ''42''"
  by code_simp

lemma ex_not_found: "\<not> edit_outcome NOT_FOUND"
  by (simp add: NOT_FOUND_def edit_outcome_def raise_for_status_def sublist_code)

lemma ex_not_modified: "sublist ''message is not modified'' ''Bad Request: message is not modified''"
  by (simp add: sublist_code)

subsection \<open>Fallback to a new message\<close>

text \<open>
  In the cloud function, in both branches, and in the open branch of the local monitor, a
  failed edit is followed by a send, and the id of the new message is stored.
\<close>

lemma monitor_crowds_fallback:
  assumes "monitor_crowds e b = (resp, b', fx)"
    and "Telegram (EditMessageText tok ch mid t) \<in> set fx"
    and "\<not> edit_outcome (tg e (EditMessageText tok ch mid t))"
  shows "Telegram (SendMessage tok ch t) \<in> set fx
       \<and> (\<forall>new. send_outcome (tg e (SendMessage tok ch t)) = Inr (Some new) \<and> new \<noteq> []
                \<and> \<not> state_write_raises e
             \<longrightarrow> state_blob b' = Some new)"
proof -
  have ok: "\<forall>k \<in> set SECRET_IDS. secrets e k \<noteq> None"
  proof (rule ccontr)
    assume "\<not> (\<forall>k \<in> set SECRET_IDS. secrets e k \<noteq> None)"
    then have "\<exists>k \<in> set SECRET_IDS. secrets e k = None" by simp
    from monitor_crowds_secret_failure [OF assms(1) this] assms(2) show False by auto
  qed
  from monitor_crowds_secrets_ok [OF assms(1) ok] assms(2)
  obtain token chat msg b1 pfx fx' r where
    c: "publish_status e token chat msg b1 = (r, b', fx')" "fx = pfx @ fx'"
       "\<forall>x \<in> set pfx. (\<forall>q. x \<noteq> Telegram q) \<and> (\<forall>s. x \<noteq> WriteState s)"
    by auto
  from assms(2) c(2,3) have mem: "Telegram (EditMessageText tok ch mid t) \<in> set fx'" by auto
  from publish_status_fallback [OF c(1) mem assms(3)]
  show ?thesis by (simp add: c(2))
qed

lemma monitor_crowds_closed_fallback_example:
  "monitor_crowds (EX_CLOUD_ENV SATURDAY_10 EX_SECRETS (PlaceData (Some 42)) NOT_FOUND SENT_43 False)
      EX_BUCKET =
   (Inr (''Library closed'', 200), EX_BUCKET\<lparr>state_blob := Some ''43''\<rparr>,
    [GetSecret ''GOOGLE_API_KEY'', GetSecret ''TELEGRAM_BOT_TOKEN'',
     GetSecret ''TELEGRAM_CHAT_ID'', GetSecret ''PLACE_ID'', ReadState,
     Telegram (EditMessageText ''123:abc'' ''@nli_status'' ''42'' ClosedText),
     Telegram (SendMessage ''123:abc'' ''@nli_status'' ClosedText),
     WriteState ''43''])"
  by (simp add: ex_pub_defs pub_defs sublist_code)

lemma run_check_open_fallback_example:
  "run_check (EX_LOCAL_ENV MONDAY_10 NOT_FOUND SENT_43) (Some ''42'') =
     (Inr (), Some ''43'',
      [FetchCrowd ''key'' ''ChIJy8LxJaZGHRURzNVZXycuQnw'', ReadState,
       Telegram (EditMessageText ''123:abc'' ''@nli_status'' ''42''
                   (LoadText YELLOW_CIRCLE LABEL_MEDIUM 42 ''10:00'')),
       Telegram (SendMessage ''123:abc'' ''@nli_status''
                   (LoadText YELLOW_CIRCLE LABEL_MEDIUM 42 ''10:00'')),
       WriteState ''43''])"
  by (simp add: ex_pub_defs pub_defs classify_load_def sublist_code)

text \<open>
  Claim C1. Whenever a message id is stored and the edit of that message fails, the
  publisher sends a new message and stores its id, for every status text, the closed
  notice included. The closed branch of \<open>run_check\<close> does not: on a Saturday, with the id
  42 stored, the edit answered by "message to edit not found" and a provider that would
  accept a new message, the cycle ends after the edit; nothing is sent and 42 stays stored.
\<close>

theorem run_check_closed_no_fallback:
  "run_check (EX_LOCAL_ENV SATURDAY_10 NOT_FOUND SENT_43) (Some ''42'') =
     (Inr (), Some ''42'',
      [ReadState, Telegram (EditMessageText ''123:abc'' ''@nli_status'' ''42'' ClosedText)])
   \<and> \<not> is_library_open SATURDAY_10
   \<and> \<not> edit_outcome NOT_FOUND
   \<and> send_outcome SENT_43 = Inr (Some ''43'')"
  by (simp add: ex_pub_defs pub_defs sublist_code)

subsection \<open>An edit that changes nothing\<close>

text \<open>
  Claim C6. An edit answered with status 400 and a text containing "message is not
  modified" counts as a success; in a cycle of the cloud function or of the local monitor
  in which the edit got that answer, the stored id is the one that was edited and stays as
  it is, no message is sent, and the cycle returns (the cloud function with status 200).
\<close>

theorem not_modified_is_success:
  "(sublist ''message is not modified'' body \<longrightarrow> edit_outcome (Response 400 body js))
   \<and> (monitor_crowds e b = (resp, b', fx)
      \<and> Telegram (EditMessageText tok ch mid t) \<in> set fx
      \<and> tg e (EditMessageText tok ch mid t) = Response 400 body js
      \<and> sublist ''message is not modified'' body
      \<longrightarrow> state_blob b' = state_blob b \<and> get_last_message_id e b = Some mid \<and> mid \<noteq> []
          \<and> filter is_send fx = [] \<and> (\<forall>s. WriteState s \<notin> set fx)
          \<and> (\<exists>answer. resp = Inr (answer, 200)))
   \<and> (run_check le file = (r, file', lfx)
      \<and> Telegram (EditMessageText tok ch mid t) \<in> set lfx
      \<and> l_tg le (EditMessageText tok ch mid t) = Response 400 body js
      \<and> sublist ''message is not modified'' body
      \<longrightarrow> file' = file \<and> get_last_message_id_local le file = Inr (Some mid) \<and> mid \<noteq> []
          \<and> filter is_send lfx = [] \<and> (\<forall>s. WriteState s \<notin> set lfx)
          \<and> r = Inr ())"
  (is "(?H0 \<longrightarrow> ?C0) \<and> (?H1 \<longrightarrow> ?C1) \<and> (?H2 \<longrightarrow> ?C2)")
proof (rule conjI [OF _ conjI])
  show "?H0 \<longrightarrow> ?C0" by (simp add: not_modified_edit_outcome)
next
  show "?H1 \<longrightarrow> ?C1"
  proof
    assume h: ?H1
    then have m: "monitor_crowds e b = (resp, b', fx)"
      and mem: "Telegram (EditMessageText tok ch mid t) \<in> set fx"
      and ed: "edit_outcome (tg e (EditMessageText tok ch mid t))"
      by (simp_all add: not_modified_edit_outcome)
    have ok: "\<forall>k \<in> set SECRET_IDS. secrets e k \<noteq> None"
    proof (rule ccontr)
      assume "\<not> (\<forall>k \<in> set SECRET_IDS. secrets e k \<noteq> None)"
      then have "\<exists>k \<in> set SECRET_IDS. secrets e k = None" by simp
      from monitor_crowds_secret_failure [OF m this] mem show False by auto
    qed
    from monitor_crowds_secrets_ok [OF m ok] mem
    obtain token chat msg b1 pfx fx' r0 where
      c: "state_blob b1 = state_blob b" "get_last_message_id e b1 = get_last_message_id e b"
         "publish_status e token chat msg b1 = (r0, b', fx')" "fx = pfx @ fx'"
         "\<forall>x \<in> set pfx. (\<forall>q. x \<noteq> Telegram q) \<and> (\<forall>s. x \<noteq> WriteState s)"
         "case r0 of Inl ex \<Rightarrow> resp = Inl ex | Inr u \<Rightarrow> (\<exists>answer. resp = Inr (answer, 200))"
      by auto
    from mem c(4,5) have "Telegram (EditMessageText tok ch mid t) \<in> set fx'" by auto
    from publish_status_not_modified [OF c(3) this ed] c(1,2,5,6)
    show ?C1
      by (auto simp: c(4) filter_is_send_none)
  qed
next
  show "?H2 \<longrightarrow> ?C2"
  proof
    assume h: ?H2
    then have m: "run_check le file = (r, file', lfx)"
      and mem: "Telegram (EditMessageText tok ch mid t) \<in> set lfx"
      and ed: "edit_outcome (l_tg le (EditMessageText tok ch mid t))"
      by (simp_all add: not_modified_edit_outcome)
    from run_check_not_modified [OF m mem ed]
    show ?C2 by simp
  qed
qed

theorem not_modified_is_success_witness:
  "sublist ''message is not modified'' ''Bad Request: message is not modified''
   \<and> edit_outcome NOT_MODIFIED
   \<and> monitor_crowds
        (EX_CLOUD_ENV SATURDAY_10 EX_SECRETS (PlaceData (Some 42)) NOT_MODIFIED SENT_43 False)
        EX_BUCKET
       = (Inr (''Library closed'', 200), EX_BUCKET,
          [GetSecret ''GOOGLE_API_KEY'', GetSecret ''TELEGRAM_BOT_TOKEN'',
           GetSecret ''TELEGRAM_CHAT_ID'', GetSecret ''PLACE_ID'', ReadState,
           Telegram (EditMessageText ''123:abc'' ''@nli_status'' ''42'' ClosedText)])
   \<and> state_blob EX_BUCKET = Some ''42''
   \<and> run_check (EX_LOCAL_ENV MONDAY_10 NOT_MODIFIED SENT_43) (Some ''42'')
       = (Inr (), Some ''42'',
          [FetchCrowd ''key'' ''ChIJy8LxJaZGHRURzNVZXycuQnw'', ReadState,
           Telegram (EditMessageText ''123:abc'' ''@nli_status'' ''42''
                       (LoadText YELLOW_CIRCLE LABEL_MEDIUM 42 ''10:00''))])"
proof -
  let ?e = "EX_CLOUD_ENV SATURDAY_10 EX_SECRETS (PlaceData (Some 42)) NOT_MODIFIED SENT_43 False"
  let ?le = "EX_LOCAL_ENV MONDAY_10 NOT_MODIFIED SENT_43"
  let ?msg = "LoadText YELLOW_CIRCLE LABEL_MEDIUM 42 ''10:00''"
  let ?fx = "[GetSecret ''GOOGLE_API_KEY'', GetSecret ''TELEGRAM_BOT_TOKEN'',
        GetSecret ''TELEGRAM_CHAT_ID'', GetSecret ''PLACE_ID'', ReadState,
        Telegram (EditMessageText ''123:abc'' ''@nli_status'' ''42'' ClosedText)]"
  let ?lfx = "[FetchCrowd ''key'' ''ChIJy8LxJaZGHRURzNVZXycuQnw'', ReadState,
        Telegram (EditMessageText ''123:abc'' ''@nli_status'' ''42'' ?msg)]"
  have c: "monitor_crowds ?e EX_BUCKET = (Inr (''Library closed'', 200), EX_BUCKET, ?fx)"
    by (simp add: ex_pub_defs pub_defs sublist_code)
  have l: "run_check ?le (Some ''42'') = (Inr (), Some ''42'', ?lfx)"
    by (simp add: ex_pub_defs pub_defs classify_load_def sublist_code)
  have r: "tg ?e (EditMessageText ''123:abc'' ''@nli_status'' ''42'' ClosedText)
             = Response 400 ''Bad Request: message is not modified'' (Some OkFalsy)"
      "l_tg ?le (EditMessageText ''123:abc'' ''@nli_status'' ''42'' ?msg)
             = Response 400 ''Bad Request: message is not modified'' (Some OkFalsy)"
    by (simp_all add: ex_pub_defs)
  have b: "state_blob EX_BUCKET = Some ''42''" by (simp add: EX_BUCKET_def)
  from not_modified_is_success [of "''Bad Request: message is not modified''" "Some OkFalsy"
        ?e EX_BUCKET "Inr (''Library closed'', 200)" EX_BUCKET ?fx
        "''123:abc''" "''@nli_status''" "''42''" ClosedText]
       not_modified_is_success [of "''Bad Request: message is not modified''" "Some OkFalsy"
        _ _ _ _ _ "''123:abc''" "''@nli_status''" "''42''" ?msg ?le "Some ''42''" "Inr ()"
        "Some ''42''" ?lfx]
  show ?thesis
    using c l r b ex_not_modified by (simp add: NOT_MODIFIED_def)
qed

subsection \<open>A send that fails\<close>




subsection \<open>Secrets that cannot be resolved\<close>




section \<open>The sync\<close>

subsection \<open>Database operations\<close>

lemma find_append_new:
  "find P xs = None \<Longrightarrow> P x \<Longrightarrow> find P (xs @ [x]) = Some x"
  by (induction xs) (auto split: if_splits)

lemma find_append_stable:
  "find P xs = Some x \<Longrightarrow> find P (xs @ ys) = Some x"
  by (induction xs) (auto split: if_splits)

lemma insert_reading_raises:
  "isl (fst (insert_reading l p t dw h io sf d)) \<longleftrightarrow>
     isl (bind_param p) \<or> isl (bind_param t) \<or> isl (bind_param dw) \<or> isl (bind_param h)"
  by (simp add: insert_reading_def split: sum.splits option.splits)

lemma insert_reading_Inl:
  "insert_reading l p t dw h io sf d = (Inl ex, d') \<Longrightarrow> d' = d"
  by (simp add: insert_reading_def split: sum.splits option.splits if_splits)

lemma insert_reading_False:
  "insert_reading l p t dw h io sf d = (Inr False, d') \<Longrightarrow> d' = d"
  by (simp add: insert_reading_def split: sum.splits option.splits if_splits)

lemma insert_reading_True:
  "insert_reading l p t dw h io sf d = (Inr True, d') \<Longrightarrow>
     \<exists>ts row. stored_text t = Some ts
       \<and> (l, ts) \<notin> set (map reading_key (readings d))
       \<and> reading_key row = (l, ts) \<and> r_synced_from row = sf
       \<and> readings d' = readings d @ [row]
       \<and> locations d' = locations d \<and> sync_log d' = sync_log d"
  by (auto simp: insert_reading_def stored_text_def reading_key_def list_ex_iff
           split: sum.splits option.splits if_splits)

lemma insert_reading_key_after:
  "insert_reading l p t dw h io sf d = (Inr ins, d') \<Longrightarrow> stored_text t = Some ts \<Longrightarrow>
     (l, ts) \<in> set (map reading_key (readings d'))"
  by (auto simp: insert_reading_def stored_text_def reading_key_def list_ex_iff
           split: sum.splits option.splits if_splits)

lemma insert_reading_duplicate:
  "\<not> isl (bind_param p) \<Longrightarrow> \<not> isl (bind_param dw) \<Longrightarrow> \<not> isl (bind_param h) \<Longrightarrow>
   stored_text t = Some ts \<Longrightarrow> (l, ts) \<in> set (map reading_key (readings d)) \<Longrightarrow>
     insert_reading l p t dw h io sf d = (Inr False, d)"
  by (auto simp: insert_reading_def stored_text_def reading_key_def list_ex_iff
           split: sum.splits option.splits)

lemma insert_reading_other:
  "insert_reading l p t dw h io sf d = (r, d') \<Longrightarrow>
     locations d' = locations d \<and> sync_log d' = sync_log d"
  by (auto simp: insert_reading_def split: sum.splits option.splits if_splits)

lemma insert_reading_readings:
  "insert_reading l p t dw h io sf d = (r, d') \<Longrightarrow>
     \<exists>rs. readings d' = readings d @ rs \<and> (\<forall>x \<in> set rs. r_synced_from x = sf)"
  by (auto simp: insert_reading_def split: sum.splits option.splits if_splits)

lemma insert_reading_constraints:
  "insert_reading l p t dw h io sf d = (r, d') \<Longrightarrow> db_constraints d \<Longrightarrow> db_constraints d'"
  by (auto simp: insert_reading_def db_constraints_def reading_key_def list_ex_iff
           split: sum.splits option.splits if_splits)

lemma get_or_create_location_raises:
  "stored_text p = None \<Longrightarrow> \<exists>ex. get_or_create_location p n nh a d = (Inl ex, d)"
  by (simp add: get_or_create_location_def stored_text_def split: sum.splits option.splits)

lemma get_or_create_location_returns:
  assumes "stored_text p = Some s"
  shows "\<exists>d'. get_or_create_location p n nh a d = (Inr (location_id_of s d), d')
           \<and> readings d' = readings d \<and> sync_log d' = sync_log d
           \<and> (\<exists>ls. locations d' = locations d @ ls)
           \<and> (\<exists>row. find (\<lambda>l. loc_place_id l = s) (locations d') = Some row
                      \<and> loc_id row = location_id_of s d)
           \<and> (db_constraints d \<longrightarrow> db_constraints d')"
proof -
  from assms obtain v where v: "bind_param p = Inr v" "text_affinity v = Some s"
    by (auto simp: stored_text_def split: sum.splits)
  show ?thesis
  proof (cases "find (\<lambda>l. loc_place_id l = s) (locations d)")
    case None
    let ?id = "Suc (fold max (map loc_id (locations d)) 0)"
    let ?row = "\<lparr>loc_id = ?id,
                 loc_name = (case n of Some n \<Rightarrow> if n \<noteq> [] then n else ''Unknown''
                             | None \<Rightarrow> ''Unknown''),
                 loc_name_he = nh, loc_place_id = s, loc_address = a\<rparr>"
    let ?d = "d\<lparr>locations := locations d @ [?row]\<rparr>"
    have g: "get_or_create_location p n nh a d = (Inr ?id, ?d)"
      using v None by (simp add: get_or_create_location_def Let_def)
    have l: "location_id_of s d = ?id" using None by (simp add: location_id_of_def)
    have f: "find (\<lambda>l. loc_place_id l = s) (locations ?d) = Some ?row"
      using None by (simp add: find_append_new)
    from None have "s \<notin> set (map loc_place_id (locations d))"
      by (auto simp: find_None_iff)
    then have c: "db_constraints d \<longrightarrow> db_constraints ?d"
      by (simp add: db_constraints_def)
    show ?thesis
      apply (rule exI [of _ ?d])
      using g l f c apply simp
      done
  next
    case (Some row)
    with v show ?thesis
      by (simp add: get_or_create_location_def location_id_of_def)
  qed
qed

lemma location_id_of_stable:
  "find (\<lambda>l. loc_place_id l = s) (locations d) = Some row \<Longrightarrow>
   locations d' = locations d @ ls \<Longrightarrow>
     find (\<lambda>l. loc_place_id l = s) (locations d') = Some row
     \<and> location_id_of s d' = loc_id row \<and> location_id_of s d = loc_id row"
  by (simp add: location_id_of_def find_append_stable)

lemma mark_blob_synced_other:
  "readings (mark_blob_synced p d) = readings d \<and> locations (mark_blob_synced p d) = locations d"
  by (simp add: mark_blob_synced_def)

lemma mark_blob_synced_log:
  "set (sync_log (mark_blob_synced p d)) = insert p (set (sync_log d))"
  by (auto simp: mark_blob_synced_def)

lemma mark_blob_synced_constraints:
  "db_constraints d \<Longrightarrow> db_constraints (mark_blob_synced p d)"
  by (simp add: mark_blob_synced_def db_constraints_def)

lemma get_or_create_location_found:
  "find (\<lambda>l. loc_place_id l = s) (locations d) = Some row \<Longrightarrow> stored_text p = Some s \<Longrightarrow>
     get_or_create_location p n nh a d = (Inr (loc_id row), d)"
  by (auto simp: get_or_create_location_def stored_text_def split: sum.splits)

subsection \<open>One turn of the loop\<close>

lemma sync_blob_synced:
  "is_blob_synced (blob_name b) d \<Longrightarrow>
     sync_blob b (d, c) = (d, c\<lparr>skip_count := skip_count c + 1\<rparr>)"
  by (simp add: sync_blob_def)

lemma insert_returnsE:
  assumes "insert_returns b"
  obtains data p where "blob_content b = JsonObject data" "truthy (j_place_id data)"
    "\<not> isl (locations_get (j_place_id data))" "stored_text (j_place_id data) = Some p"
    "\<not> isl (bind_param (j_popularity data))" "\<not> isl (bind_param (j_timestamp data))"
    "\<not> isl (bind_param (j_day_of_week data))" "\<not> isl (bind_param (j_hour data))"
  using assms by (auto simp: insert_returns_def split: download.splits)

lemma sync_blob_returns:
  assumes ns: "\<not> is_blob_synced (blob_name b) d"
    and ir: "insert_returns b"
    and bc: "blob_content b = JsonObject data"
    and st: "stored_text (j_place_id data) = Some p"
  shows "\<exists>n nh a dg ins di.
           get_or_create_location (j_place_id data) n nh a d = (Inr (location_id_of p d), dg)
         \<and> readings dg = readings d \<and> sync_log dg = sync_log d
         \<and> (\<exists>ls. locations dg = locations d @ ls)
         \<and> (\<exists>row. find (\<lambda>l. loc_place_id l = p) (locations dg) = Some row
                      \<and> loc_id row = location_id_of p d)
         \<and> (db_constraints d \<longrightarrow> db_constraints dg)
         \<and> insert_reading (location_id_of p d) (j_popularity data) (j_timestamp data)
              (j_day_of_week data) (j_hour data) (j_is_open data) (Some (blob_name b)) dg
             = (Inr ins, di)
         \<and> sync_blob b (d, c) =
             (mark_blob_synced (blob_name b) di,
              if ins then c\<lparr>new_count := new_count c + 1\<rparr>
              else c\<lparr>skip_count := skip_count c + 1\<rparr>)"
proof -
  from ir bc have f: "truthy (j_place_id data)" "\<not> isl (locations_get (j_place_id data))"
    "\<not> isl (bind_param (j_popularity data))" "\<not> isl (bind_param (j_timestamp data))"
    "\<not> isl (bind_param (j_day_of_week data))" "\<not> isl (bind_param (j_hour data))"
    by (simp_all add: insert_returns_def)
  from f(2) obtain li where li: "locations_get (j_place_id data) = Inr li"
    by (cases "locations_get (j_place_id data)") simp_all
  let ?n = "map_option li_name li" and ?nh = "map_option li_name_he li"
    and ?a = "map_option li_address li"
  from get_or_create_location_returns [OF st, of ?n ?nh ?a d]
  obtain dg where g: "get_or_create_location (j_place_id data) ?n ?nh ?a d
                        = (Inr (location_id_of p d), dg)"
    and g2: "readings dg = readings d" "sync_log dg = sync_log d"
      "\<exists>ls. locations dg = locations d @ ls"
      "\<exists>row. find (\<lambda>l. loc_place_id l = p) (locations dg) = Some row
                      \<and> loc_id row = location_id_of p d"
      "db_constraints d \<longrightarrow> db_constraints dg"
    by blast
  let ?ins = "insert_reading (location_id_of p d) (j_popularity data) (j_timestamp data)
              (j_day_of_week data) (j_hour data) (j_is_open data) (Some (blob_name b)) dg"
  obtain r di where i0: "?ins = (r, di)" by (cases ?ins)
  from insert_reading_raises [of "location_id_of p d" "j_popularity data" "j_timestamp data"
      "j_day_of_week data" "j_hour data" "j_is_open data" "Some (blob_name b)" dg] f(3-6) i0
  have "\<not> isl r" by simp
  then obtain ins where r: "r = Inr ins" by (cases r) simp_all
  have s: "sync_blob b (d, c) =
             (mark_blob_synced (blob_name b) di,
              if ins then c\<lparr>new_count := new_count c + 1\<rparr>
              else c\<lparr>skip_count := skip_count c + 1\<rparr>)"
    using ns bc f(1) li g i0 r by (simp add: sync_blob_def)
  show ?thesis
    apply (rule exI [of _ ?n], rule exI [of _ ?nh], rule exI [of _ ?a], rule exI [of _ dg],
           rule exI [of _ ins], rule exI [of _ di])
    using g g2 i0 r s apply simp
    done
qed

lemma sync_blob_failed:
  assumes ns: "\<not> is_blob_synced (blob_name b) d" and nr: "\<not> insert_returns b"
  shows "\<exists>d'. sync_blob b (d, c) = (d', c\<lparr>error_count := error_count c + 1\<rparr>)
           \<and> readings d' = readings d \<and> sync_log d' = sync_log d
           \<and> (\<exists>ls. locations d' = locations d @ ls)
           \<and> (db_constraints d \<longrightarrow> db_constraints d')"
proof (cases "blob_content b")
  case DownloadRaises
  with ns show ?thesis by (simp add: sync_blob_def)
next
  case NotJson
  with ns show ?thesis by (simp add: sync_blob_def)
next
  case JsonNonObject
  with ns show ?thesis by (simp add: sync_blob_def)
next
  case (JsonObject data)
  note bc = this
  show ?thesis
  proof (cases "truthy (j_place_id data)")
    case False
    with ns bc show ?thesis by (simp add: sync_blob_def)
  next
    case tr: True
    show ?thesis
    proof (cases "locations_get (j_place_id data)")
      case (Inl ex)
      with ns bc tr show ?thesis by (simp add: sync_blob_def)
    next
      case (Inr li)
      note li = this
      let ?n = "map_option li_name li" and ?nh = "map_option li_name_he li"
        and ?a = "map_option li_address li"
      show ?thesis
      proof (cases "stored_text (j_place_id data)")
        case None
        from get_or_create_location_raises [OF None, of ?n ?nh ?a d]
        obtain ex where "get_or_create_location (j_place_id data) ?n ?nh ?a d = (Inl ex, d)"
          by blast
        with ns bc tr li show ?thesis by (simp add: sync_blob_def)
      next
        case (Some p)
        from get_or_create_location_returns [OF Some, of ?n ?nh ?a d]
        obtain dg where g: "get_or_create_location (j_place_id data) ?n ?nh ?a d
                        = (Inr (location_id_of p d), dg)"
          and g2: "readings dg = readings d" "sync_log dg = sync_log d"
            "\<exists>ls. locations dg = locations d @ ls"
            "db_constraints d \<longrightarrow> db_constraints dg"
          by blast
        let ?ins = "insert_reading (location_id_of p d) (j_popularity data) (j_timestamp data)
              (j_day_of_week data) (j_hour data) (j_is_open data) (Some (blob_name b)) dg"
        obtain r di where i0: "?ins = (r, di)" by (cases ?ins)
        from nr bc tr li Some have "isl (bind_param (j_popularity data))
            \<or> isl (bind_param (j_timestamp data)) \<or> isl (bind_param (j_day_of_week data))
            \<or> isl (bind_param (j_hour data))"
          by (auto simp: insert_returns_def)
        with insert_reading_raises [of "location_id_of p d" "j_popularity data"
            "j_timestamp data" "j_day_of_week data" "j_hour data" "j_is_open data"
            "Some (blob_name b)" dg] i0
        have "isl r" by simp
        then obtain ex where r: "r = Inl ex" by (cases r) simp_all
        from i0 r have "di = dg" by (auto dest: insert_reading_Inl)
        with ns bc tr li g i0 r g2 show ?thesis by (simp add: sync_blob_def)
      qed
    qed
  qed
qed

lemma sync_blob_cases:
  obtains (Synced) "is_blob_synced (blob_name b) d"
      "sync_blob b (d, c) = (d, c\<lparr>skip_count := skip_count c + 1\<rparr>)"
  | (Failed) d' ls where "\<not> is_blob_synced (blob_name b) d" "\<not> insert_returns b"
      "sync_blob b (d, c) = (d', c\<lparr>error_count := error_count c + 1\<rparr>)"
      "readings d' = readings d" "sync_log d' = sync_log d" "locations d' = locations d @ ls"
      "db_constraints d \<longrightarrow> db_constraints d'"
  | (Returned) data p n nh a dg ls ins di where
      "\<not> is_blob_synced (blob_name b) d" "insert_returns b"
      "blob_content b = JsonObject data" "stored_text (j_place_id data) = Some p"
      "get_or_create_location (j_place_id data) n nh a d = (Inr (location_id_of p d), dg)"
      "readings dg = readings d" "sync_log dg = sync_log d" "locations dg = locations d @ ls"
      "db_constraints d \<longrightarrow> db_constraints dg"
      "insert_reading (location_id_of p d) (j_popularity data) (j_timestamp data)
              (j_day_of_week data) (j_hour data) (j_is_open data) (Some (blob_name b)) dg
             = (Inr ins, di)"
      "sync_blob b (d, c) =
             (mark_blob_synced (blob_name b) di,
              if ins then c\<lparr>new_count := new_count c + 1\<rparr>
              else c\<lparr>skip_count := skip_count c + 1\<rparr>)"
proof (cases "is_blob_synced (blob_name b) d")
  case True
  then show ?thesis by (rule Synced) (simp add: sync_blob_synced True)
next
  case ns: False
  show ?thesis
  proof (cases "insert_returns b")
    case False
    from sync_blob_failed [OF ns False, of c] obtain d' ls where
      "sync_blob b (d, c) = (d', c\<lparr>error_count := error_count c + 1\<rparr>)"
      "readings d' = readings d" "sync_log d' = sync_log d" "locations d' = locations d @ ls"
      "db_constraints d \<longrightarrow> db_constraints d'"
      by blast
    with ns False show ?thesis by (rule Failed)
  next
    case True
    then obtain data p where dp: "blob_content b = JsonObject data"
      "stored_text (j_place_id data) = Some p"
      by (rule insert_returnsE)
    from sync_blob_returns [OF ns True dp, of c] obtain n nh a dg ins di ls where
      "get_or_create_location (j_place_id data) n nh a d = (Inr (location_id_of p d), dg)"
      "readings dg = readings d" "sync_log dg = sync_log d" "locations dg = locations d @ ls"
      "db_constraints d \<longrightarrow> db_constraints dg"
      "insert_reading (location_id_of p d) (j_popularity data) (j_timestamp data)
              (j_day_of_week data) (j_hour data) (j_is_open data) (Some (blob_name b)) dg
             = (Inr ins, di)"
      "sync_blob b (d, c) =
             (mark_blob_synced (blob_name b) di,
              if ins then c\<lparr>new_count := new_count c + 1\<rparr>
              else c\<lparr>skip_count := skip_count c + 1\<rparr>)"
      by blast
    with ns True dp show ?thesis by (rule Returned)
  qed
qed

lemma sync_blob_fields:
  "sync_blob b (d, c) = (d', c') \<Longrightarrow>
     (new_count c', skip_count c', error_count c') \<in>
       {(Suc (new_count c), skip_count c, error_count c),
        (new_count c, Suc (skip_count c), error_count c),
        (new_count c, skip_count c, Suc (error_count c))}"
  by (cases b d c rule: sync_blob_cases) (auto split: if_splits)

lemma sync_blob_error_iff:
  "error_count (snd (sync_blob b (d, c))) = Suc (error_count c)
     \<longleftrightarrow> \<not> is_blob_synced (blob_name b) d \<and> \<not> insert_returns b"
  by (cases b d c rule: sync_blob_cases) (auto split: if_splits)

lemma sync_blob_log:
  "set (sync_log (fst (sync_blob b (d, c)))) =
     set (sync_log d) \<union> (if insert_returns b \<and> \<not> is_blob_synced (blob_name b) d
                           then {blob_name b} else {})"
proof (cases b d c rule: sync_blob_cases)
  case Synced
  then show ?thesis by simp
next
  case (Failed d' ls)
  then show ?thesis by simp
next
  case (Returned data p n nh a dg ls ins di)
  from insert_reading_other [OF Returned(10)] Returned(7)
  have "sync_log di = sync_log d" by simp
  with Returned(1,2,11) show ?thesis by (simp add: mark_blob_synced_log)
qed

lemma sync_blob_constraints:
  "db_constraints d \<Longrightarrow> db_constraints (fst (sync_blob b (d, c)))"
proof (cases b d c rule: sync_blob_cases)
  case Synced
  assume "db_constraints d"
  with Synced show ?thesis by simp
next
  case (Failed d' ls)
  assume "db_constraints d"
  with Failed show ?thesis by simp
next
  case (Returned data p n nh a dg ls ins di)
  assume "db_constraints d"
  with Returned(9) have "db_constraints dg" by simp
  with insert_reading_constraints [OF Returned(10)] have "db_constraints di" by simp
  then show ?thesis by (simp add: Returned(11) mark_blob_synced_constraints)
qed

lemma sync_blob_mono:
  "\<exists>ls rs. locations (fst (sync_blob b (d, c))) = locations d @ ls
         \<and> readings (fst (sync_blob b (d, c))) = readings d @ rs
         \<and> (\<forall>x \<in> set rs. r_synced_from x = Some (blob_name b)
                          \<and> \<not> is_blob_synced (blob_name b) d)"
proof (cases b d c rule: sync_blob_cases)
  case Synced
  then show ?thesis by simp
next
  case (Failed d' ls)
  then show ?thesis by simp
next
  case (Returned data p n nh a dg ls ins di)
  from insert_reading_readings [OF Returned(10)] obtain rs where
    rs: "readings di = readings dg @ rs" "\<forall>x \<in> set rs. r_synced_from x = Some (blob_name b)"
    by blast
  from insert_reading_other [OF Returned(10)] have "locations di = locations dg" by simp
  with rs Returned(1,6,8,11) show ?thesis by (simp add: mark_blob_synced_other)
qed

lemma sync_blob_rows_from:
  assumes "path \<in> set (sync_log d)"
  shows "rows_from path (fst (sync_blob b (d, c))) = rows_from path d"
proof -
  from sync_blob_mono [of b d c] obtain rs where
    rs: "readings (fst (sync_blob b (d, c))) = readings d @ rs"
      "\<forall>x \<in> set rs. r_synced_from x = Some (blob_name b) \<and> \<not> is_blob_synced (blob_name b) d"
    by blast
  from rs(2) assms have "filter (\<lambda>r. r_synced_from r = Some path) rs = []"
    by (auto simp: filter_empty_conv is_blob_synced_def)
  with rs(1) show ?thesis by (simp add: rows_from_def)
qed

lemma sync_blob_duplicate_skip:
  assumes "sync_blob b (d0, c0) = (d1, c1)"
    and "\<not> is_blob_synced (blob_name b) d0" and "insert_returns b"
  shows "(readings d1 = readings d0 \<longrightarrow>
            skip_count c1 = Suc (skip_count c0) \<and> new_count c1 = new_count c0
            \<and> error_count c1 = error_count c0)
       \<and> (readings d1 \<noteq> readings d0 \<longrightarrow>
            new_count c1 = Suc (new_count c0) \<and> skip_count c1 = skip_count c0
            \<and> error_count c1 = error_count c0)"
proof (cases b d0 c0 rule: sync_blob_cases)
  case Synced
  with assms show ?thesis by simp
next
  case (Failed d' ls)
  with assms show ?thesis by simp
next
  case (Returned data p n nh a dg ls ins di)
  show ?thesis
  proof (cases ins)
    case True
    with Returned(10) have "insert_reading (location_id_of p d0) (j_popularity data)
        (j_timestamp data) (j_day_of_week data) (j_hour data) (j_is_open data)
        (Some (blob_name b)) dg = (Inr True, di)" by simp
    from insert_reading_True [OF this] obtain row where "readings di = readings dg @ [row]"
      by blast
    with Returned(6,11) assms(1) True show ?thesis
      by (auto simp: mark_blob_synced_other)
  next
    case False
    with Returned(10) have "insert_reading (location_id_of p d0) (j_popularity data)
        (j_timestamp data) (j_day_of_week data) (j_hour data) (j_is_open data)
        (Some (blob_name b)) dg = (Inr False, di)" by simp
    from insert_reading_False [OF this] have "di = dg" .
    with Returned(6,11) assms(1) False show ?thesis
      by (auto simp: mark_blob_synced_other)
  qed
qed

subsection \<open>The whole loop\<close>

lemma sync_loop_append: "sync_loop (xs @ ys) st = sync_loop ys (sync_loop xs st)"
  by (induction xs arbitrary: st) simp_all

lemma sync_loop_sum:
  "new_count (snd (sync_loop bs st)) + skip_count (snd (sync_loop bs st))
     + error_count (snd (sync_loop bs st))
   = length bs + (new_count (snd st) + skip_count (snd st) + error_count (snd st))"
proof (induction bs arbitrary: st)
  case Nil
  show ?case by simp
next
  case (Cons b bs)
  obtain d c where st: "st = (d, c)" by (cases st)
  obtain d' c' where s: "sync_blob b (d, c) = (d', c')" by (cases "sync_blob b (d, c)")
  from sync_blob_fields [OF s]
  have "new_count c' + skip_count c' + error_count c'
          = Suc (new_count c + skip_count c + error_count c)"
    by auto
  with Cons.IH [of "(d', c')"] show ?case by (simp add: st s)
qed

lemma sync_loop_log:
  "set (sync_log (fst st)) \<subseteq> set (sync_log (fst (sync_loop bs st)))
   \<and> set (sync_log (fst (sync_loop bs st))) \<subseteq>
       set (sync_log (fst st)) \<union> blob_name ` {b \<in> set bs. insert_returns b}
   \<and> (\<forall>b \<in> set bs. insert_returns b \<longrightarrow>
         blob_name b \<in> set (sync_log (fst (sync_loop bs st))))"
proof (induction bs arbitrary: st)
  case Nil
  show ?case by simp
next
  case (Cons b bs)
  obtain d c where st: "st = (d, c)" by (cases st)
  have l: "set (sync_log (fst (sync_blob b (d, c)))) =
     set (sync_log d) \<union> (if insert_returns b \<and> \<not> is_blob_synced (blob_name b) d
                           then {blob_name b} else {})"
    by (rule sync_blob_log)
  note ih = Cons.IH [of "sync_blob b (d, c)"]
  have 1: "set (sync_log (fst st)) \<subseteq> set (sync_log (fst (sync_loop (b # bs) st)))"
    using ih l by (auto simp: st)
  have 2: "set (sync_log (fst (sync_loop (b # bs) st))) \<subseteq>
       set (sync_log (fst st)) \<union> blob_name ` {x \<in> set (b # bs). insert_returns x}"
    using ih l by (auto simp: st split: if_splits)
  have 3: "\<forall>x \<in> set (b # bs). insert_returns x \<longrightarrow>
         blob_name x \<in> set (sync_log (fst (sync_loop (b # bs) st)))"
    using ih l by (auto simp: st is_blob_synced_def split: if_splits)
  from 1 2 3 show ?case by simp
qed

lemma sync_loop_constraints:
  "db_constraints (fst st) \<Longrightarrow> db_constraints (fst (sync_loop bs st))"
proof (induction bs arbitrary: st)
  case Nil
  then show ?case by simp
next
  case (Cons b bs)
  obtain d c where st: "st = (d, c)" by (cases st)
  from Cons.prems have "db_constraints (fst (sync_blob b st))"
    by (simp add: st sync_blob_constraints)
  then show ?case by (simp add: Cons.IH)
qed

lemma sync_loop_rows_from:
  "path \<in> set (sync_log (fst st)) \<Longrightarrow>
     rows_from path (fst (sync_loop bs st)) = rows_from path (fst st)"
proof (induction bs arbitrary: st)
  case Nil
  show ?case by simp
next
  case (Cons b bs)
  obtain d c where st: "st = (d, c)" by (cases st)
  from Cons.prems have "path \<in> set (sync_log (fst (sync_blob b st)))"
    by (simp add: st sync_blob_log)
  then have "rows_from path (fst (sync_loop bs (sync_blob b st)))
               = rows_from path (fst (sync_blob b st))"
    by (rule Cons.IH)
  with Cons.prems show ?case by (simp add: st sync_blob_rows_from)
qed

lemma sync_loop_mono:
  "\<exists>ls rs. locations (fst (sync_loop bs st)) = locations (fst st) @ ls
         \<and> readings (fst (sync_loop bs st)) = readings (fst st) @ rs"
proof (induction bs arbitrary: st)
  case Nil
  show ?case by simp
next
  case (Cons b bs)
  obtain d c where st: "st = (d, c)" by (cases st)
  from sync_blob_mono [of b d c] obtain ls rs where
    1: "locations (fst (sync_blob b (d, c))) = locations d @ ls"
       "readings (fst (sync_blob b (d, c))) = readings d @ rs"
    by blast
  from Cons.IH [of "sync_blob b (d, c)"] obtain ls' rs' where
    2: "locations (fst (sync_loop bs (sync_blob b (d, c))))
          = locations (fst (sync_blob b (d, c))) @ ls'"
       "readings (fst (sync_loop bs (sync_blob b (d, c))))
          = readings (fst (sync_blob b (d, c))) @ rs'"
    by blast
  from 1 2 show ?case by (simp add: st)
qed

lemma sync_readings_Listed:
  "sync_readings (Listed blobs) d = (d', r) \<longleftrightarrow>
     (\<exists>c. r = Inr (Some c)
        \<and> sync_loop (filter (\<lambda>b. suffix ''.json'' (blob_name b)) blobs)
            (d, \<lparr>new_count = 0, skip_count = 0, error_count = 0\<rparr>) = (d', c))"
  by (auto simp: sync_readings_def init_db_def Let_def split: prod.splits)

lemma distinct_count_one:
  "distinct xs \<Longrightarrow> x \<in> set xs \<Longrightarrow> count_list xs x = 1"
  by (induction xs) (auto simp: count_list_0_iff)

lemma distinct_key_filter_one:
  "distinct (map f xs) \<Longrightarrow> k \<in> set (map f xs) \<Longrightarrow> length (filter (\<lambda>x. f x = k) xs) = 1"
proof (induction xs)
  case Nil
  then show ?case by simp
next
  case (Cons x xs)
  show ?case
  proof (cases "f x = k")
    case True
    with Cons.prems have "k \<notin> f ` set xs" by auto
    then have "filter (\<lambda>x. f x = k) xs = []"
      by (auto simp: filter_empty_conv)
    with True show ?thesis by simp
  next
    case False
    with Cons show ?thesis by auto
  qed
qed

subsection \<open>Evaluation on the concrete archive\<close>

lemmas ex_defs = EX_BLOBS_def EX_BLOB1_def EX_BLOB2_def EX_BLOB3_def EX_BLOB4_def EMPTY_DB_def
  EX_DATA_def EX_DB1_def EX_DB2_def

lemmas sync_defs = sync_readings_def init_db_def sync_blob_def
  is_blob_synced_def get_or_create_location_def insert_reading_def mark_blob_synced_def
  locations_get_def bind_param_def text_affinity_def truthy_def
  LOCATIONS_def suffix_to_prefix Let_def

lemmas returns_defs = insert_returns_def stored_text_def locations_get_def bind_param_def
  text_affinity_def truthy_def

lemma ex_step1:
  "sync_blob EX_BLOB1 (EMPTY_DB, c) = (EX_DB1, c\<lparr>new_count := new_count c + 1\<rparr>)"
  by (simp add: ex_defs sync_defs)

lemma ex_step2:
  "sync_blob EX_BLOB2 (EX_DB1, c) = (EX_DB2, c\<lparr>skip_count := skip_count c + 1\<rparr>)"
  by (simp add: ex_defs sync_defs)

lemma ex_step3:
  "sync_blob EX_BLOB3 (d, c) =
     (if is_blob_synced (blob_name EX_BLOB3) d then (d, c\<lparr>skip_count := skip_count c + 1\<rparr>)
      else (d, c\<lparr>error_count := error_count c + 1\<rparr>))"
  by (simp add: EX_BLOB3_def sync_blob_def)

lemma ex_step4:
  "sync_blob EX_BLOB4 (EX_DB2, c) = (EX_DB2, c\<lparr>error_count := error_count c + 1\<rparr>)"
  by (simp add: ex_defs sync_defs)

lemma ex_step4_empty:
  "sync_blob EX_BLOB4 (EMPTY_DB, c) =
     (EMPTY_DB\<lparr>locations := locations EX_DB1\<rparr>, c\<lparr>error_count := error_count c + 1\<rparr>)"
  by (simp add: ex_defs sync_defs)

lemma ex_json:
  "filter (\<lambda>b. suffix ''.json'' (blob_name b)) EX_BLOBS =
     [EX_BLOB1, EX_BLOB3, EX_BLOB2,
      \<lparr>blob_name = ''readings/2024/01/28/15-30.json'',
        blob_content = JsonObject (EX_DATA\<lparr>j_place_id := JNull\<rparr>)\<rparr>,
      EX_BLOB4]"
  by (simp add: ex_defs suffix_to_prefix)

lemma ex_run1:
  "sync_readings (Listed EX_BLOBS) EMPTY_DB =
     (EX_DB2, Inr (Some \<lparr>new_count = 1, skip_count = 1, error_count = 3\<rparr>))"
  by (simp add: ex_defs sync_defs)

lemma ex_run2:
  "sync_readings (Listed EX_BLOBS) EX_DB2 =
     (EX_DB2, Inr (Some \<lparr>new_count = 0, skip_count = 2, error_count = 3\<rparr>))"
  by (simp add: ex_defs sync_defs)

lemma ex_constraints: "db_constraints EMPTY_DB"
  by (simp add: db_constraints_def EMPTY_DB_def)

lemma ex_returns:
  "insert_returns EX_BLOB1" "insert_returns EX_BLOB2" "\<not> insert_returns EX_BLOB3"
  "\<not> insert_returns EX_BLOB4"
  by (simp_all add: ex_defs returns_defs LOCATIONS_def)

subsection \<open>Claims about the sync\<close>

text \<open>
  Claim C2. After a run that listed an object and got it through \<open>insert_reading\<close>, a
  second run over an archive holding the same path adds no row imported from that path,
  the ledger holds the path exactly once after either run, and the second encounter
  leaves the database as it is and raises only the count of skipped objects, by one;
  neither run raises.
\<close>

theorem sync_idempotent:
  assumes "db_constraints d0"
    and "sync_readings (Listed blobs1) d0 = (d1, r1)"
    and "b \<in> set blobs1" and "suffix ''.json'' (blob_name b)" and "insert_returns b"
    and "sync_readings (Listed blobs2) d1 = (d2, r2)"
  shows "count_list (sync_log d1) (blob_name b) = 1
       \<and> count_list (sync_log d2) (blob_name b) = 1
       \<and> rows_from (blob_name b) d2 = rows_from (blob_name b) d1
       \<and> sync_blob b (d1, c) = (d1, c\<lparr>skip_count := skip_count c + 1\<rparr>)
       \<and> sync_loop (pre @ b # post) (d1, c) =
           sync_loop post
             (fst (sync_loop pre (d1, c)),
              (snd (sync_loop pre (d1, c)))
                \<lparr>skip_count := skip_count (snd (sync_loop pre (d1, c))) + 1\<rparr>)
       \<and> (\<exists>c1 c2. r1 = Inr (Some c1) \<and> r2 = Inr (Some c2))"
proof -
  let ?J = "\<lambda>b. suffix ''.json'' (blob_name b)"
  let ?Z = "\<lparr>new_count = 0, skip_count = 0, error_count = 0\<rparr>"
  from assms(2) obtain c1 where r1: "r1 = Inr (Some c1)"
    and run1: "sync_loop (filter ?J blobs1) (d0, ?Z) = (d1, c1)"
    by (auto simp: sync_readings_Listed)
  from assms(6) obtain c2 where r2: "r2 = Inr (Some c2)"
    and run2: "sync_loop (filter ?J blobs2) (d1, ?Z) = (d2, c2)"
    by (auto simp: sync_readings_Listed)
  have in1: "blob_name b \<in> set (sync_log d1)"
    using sync_loop_log [of "(d0, ?Z)" "filter ?J blobs1"] run1 assms(3-5) by auto
  have in2: "blob_name b \<in> set (sync_log d2)"
    using sync_loop_log [of "(d1, ?Z)" "filter ?J blobs2"] run2 in1 by auto
  have c1: "db_constraints d1"
    using sync_loop_constraints [of "(d0, ?Z)" "filter ?J blobs1"] assms(1) run1 by simp
  have c2: "db_constraints d2"
    using sync_loop_constraints [of "(d1, ?Z)" "filter ?J blobs2"] c1 run2 by simp
  have n1: "count_list (sync_log d1) (blob_name b) = 1"
    using c1 in1 by (simp add: db_constraints_def distinct_count_one)
  have n2: "count_list (sync_log d2) (blob_name b) = 1"
    using c2 in2 by (simp add: db_constraints_def distinct_count_one)
  have rows: "rows_from (blob_name b) d2 = rows_from (blob_name b) d1"
    using sync_loop_rows_from [of "blob_name b" "(d1, ?Z)" "filter ?J blobs2"] in1 run2 by simp
  have step: "sync_blob b (d1, c) = (d1, c\<lparr>skip_count := skip_count c + 1\<rparr>)"
    using in1 by (simp add: sync_blob_synced is_blob_synced_def)
  obtain dm cm where pre: "sync_loop pre (d1, c) = (dm, cm)"
    by (cases "sync_loop pre (d1, c)")
  have "blob_name b \<in> set (sync_log dm)"
    using sync_loop_log [of "(d1, c)" pre] pre in1 by auto
  then have "sync_blob b (dm, cm) = (dm, cm\<lparr>skip_count := skip_count cm + 1\<rparr>)"
    by (simp add: sync_blob_synced is_blob_synced_def)
  then have enc: "sync_loop (pre @ b # post) (d1, c) =
           sync_loop post
             (fst (sync_loop pre (d1, c)),
              (snd (sync_loop pre (d1, c)))
                \<lparr>skip_count := skip_count (snd (sync_loop pre (d1, c))) + 1\<rparr>)"
    by (simp add: sync_loop_append pre)
  from n1 n2 rows step enc r1 r2 show ?thesis by simp
qed

theorem sync_idempotent_witness:
  "db_constraints EMPTY_DB
   \<and> sync_readings (Listed EX_BLOBS) EMPTY_DB
        = (EX_DB2, Inr (Some \<lparr>new_count = 1, skip_count = 1, error_count = 3\<rparr>))
   \<and> EX_BLOB1 \<in> set EX_BLOBS \<and> suffix ''.json'' (blob_name EX_BLOB1) \<and> insert_returns EX_BLOB1
   \<and> sync_readings (Listed EX_BLOBS) EX_DB2
        = (EX_DB2, Inr (Some \<lparr>new_count = 0, skip_count = 2, error_count = 3\<rparr>))
   \<and> count_list (sync_log EX_DB2) (blob_name EX_BLOB1) = 1
   \<and> length (rows_from (blob_name EX_BLOB1) EX_DB2) = 1
   \<and> length (readings EX_DB2) = 1
   \<and> sync_blob EX_BLOB1 (EX_DB2, \<lparr>new_count = 0, skip_count = 0, error_count = 0\<rparr>)
        = (EX_DB2, \<lparr>new_count = 0, skip_count = 1, error_count = 0\<rparr>)"
proof -
  have h3: "EX_BLOB1 \<in> set EX_BLOBS" by (simp add: EX_BLOBS_def)
  have h4: "suffix ''.json'' (blob_name EX_BLOB1)" by (simp add: EX_BLOB1_def suffix_to_prefix)
  have r: "length (rows_from (blob_name EX_BLOB1) EX_DB2) = 1" "length (readings EX_DB2) = 1"
    by (simp_all add: rows_from_def ex_defs)
  from sync_idempotent [OF ex_constraints ex_run1 h3 h4 ex_returns(1) ex_run2,
      of "\<lparr>new_count = 0, skip_count = 0, error_count = 0\<rparr>" "[]" "[]"]
  show ?thesis
    using ex_constraints ex_run1 ex_run2 h3 h4 ex_returns(1) r by simp
qed

text \<open>
  Claim C5. Take a run over listed \<open>.json\<close> objects among which two, \<open>b1\<close> before
  \<open>b2\<close> with any objects before, between and after them, have the same stored place id
  and the same stored time stamp, both get through \<open>insert_reading\<close>, and whose paths
  are not in the ledger and do not occur earlier in the listing. Then at the turn of
  \<open>b2\<close> the place resolves to the location id it had at the turn of \<open>b1\<close> without a
  new location row, \<open>insert_reading\<close> answers \<open>False\<close> and leaves the database as it
  is, \<open>b2\<close> is counted as skipped and its path marked, the run goes on with the
  remaining objects and returns its counts, and exactly one row with that location and
  time stamp exists, at the turn of \<open>b2\<close> and at the end of the run.
\<close>

theorem sync_dedup_by_content:
  assumes cons: "db_constraints d"
    and listed: "filter (\<lambda>b. suffix ''.json'' (blob_name b)) blobs
                   = pre @ b1 # mid @ b2 # post"
    and ir1: "insert_returns b1" and ir2: "insert_returns b2"
    and bc1: "blob_content b1 = JsonObject data1" and bc2: "blob_content b2 = JsonObject data2"
    and p1: "stored_text (j_place_id data1) = Some p"
    and p2: "stored_text (j_place_id data2) = Some p"
    and t1: "stored_text (j_timestamp data1) = Some ts"
    and t2: "stored_text (j_timestamp data2) = Some ts"
    and n1: "blob_name b1 \<notin> set (sync_log d) \<union> blob_name ` set pre"
    and n2: "blob_name b2 \<notin> set (sync_log d) \<union> blob_name ` set (pre @ b1 # mid)"
    and run1: "sync_loop pre (d, \<lparr>new_count = 0, skip_count = 0, error_count = 0\<rparr>) = (d1, c1)"
    and run2: "sync_loop (b1 # mid) (d1, c1) = (d2, c2)"
  shows "get_or_create_location (j_place_id data2) n nh a d2 = (Inr (location_id_of p d1), d2)
       \<and> insert_reading (location_id_of p d1) (j_popularity data2) (j_timestamp data2)
           (j_day_of_week data2) (j_hour data2) (j_is_open data2) (Some (blob_name b2)) d2
          = (Inr False, d2)
       \<and> sync_blob b2 (d2, c2) =
           (mark_blob_synced (blob_name b2) d2, c2\<lparr>skip_count := skip_count c2 + 1\<rparr>)
       \<and> length (filter (\<lambda>r. reading_key r = (location_id_of p d1, ts)) (readings d2)) = 1
       \<and> sync_readings (Listed blobs) d =
           (fst (sync_loop post (mark_blob_synced (blob_name b2) d2,
                                 c2\<lparr>skip_count := skip_count c2 + 1\<rparr>)),
            Inr (Some (snd (sync_loop post (mark_blob_synced (blob_name b2) d2,
                                            c2\<lparr>skip_count := skip_count c2 + 1\<rparr>)))))
       \<and> length (filter (\<lambda>r. reading_key r = (location_id_of p d1, ts))
                   (readings (fst (sync_readings (Listed blobs) d)))) = 1"
proof -
  let ?Z = "\<lparr>new_count = 0, skip_count = 0, error_count = 0\<rparr>"
  let ?l = "location_id_of p d1"
  let ?S = "(mark_blob_synced (blob_name b2) d2, c2\<lparr>skip_count := skip_count c2 + 1\<rparr>)"
  have cons1: "db_constraints d1"
    using sync_loop_constraints [of "(d, ?Z)" pre] cons run1 by simp
  have cons2: "db_constraints d2"
    using sync_loop_constraints [of "(d1, c1)" "b1 # mid"] cons1 run2 by simp
  have log1: "set (sync_log d1) \<subseteq> set (sync_log d) \<union> blob_name ` set pre"
    using sync_loop_log [of "(d, ?Z)" pre] run1 by auto
  have log2: "set (sync_log d2) \<subseteq> set (sync_log d1) \<union> blob_name ` set (b1 # mid)"
    using sync_loop_log [of "(d1, c1)" "b1 # mid"] run2 by auto
  from log1 n1 have ns1: "\<not> is_blob_synced (blob_name b1) d1"
    by (auto simp: is_blob_synced_def)
  from log1 log2 n2 have ns2: "\<not> is_blob_synced (blob_name b2) d2"
    by (auto simp: is_blob_synced_def)
  from sync_blob_returns [OF ns1 ir1 bc1 p1, of c1]
  obtain n1 nh1 a1 dg ins di row ls where
    g: "locations dg = locations d1 @ ls"
       "find (\<lambda>l. loc_place_id l = p) (locations dg) = Some row" "loc_id row = ?l"
    and i: "insert_reading ?l (j_popularity data1) (j_timestamp data1)
              (j_day_of_week data1) (j_hour data1) (j_is_open data1) (Some (blob_name b1)) dg
             = (Inr ins, di)"
    and s1: "sync_blob b1 (d1, c1) =
             (mark_blob_synced (blob_name b1) di,
              if ins then c1\<lparr>new_count := new_count c1 + 1\<rparr>
              else c1\<lparr>skip_count := skip_count c1 + 1\<rparr>)"
    by blast
  let ?a = "mark_blob_synced (blob_name b1) di"
  from insert_reading_key_after [OF i t1]
  have key_a: "(?l, ts) \<in> set (map reading_key (readings ?a))"
    by (simp add: mark_blob_synced_other)
  from insert_reading_other [OF i] g(2)
  have loc_a: "find (\<lambda>l. loc_place_id l = p) (locations ?a) = Some row"
    by (simp add: mark_blob_synced_other)
  let ?c = "if ins then c1\<lparr>new_count := new_count c1 + 1\<rparr>
            else c1\<lparr>skip_count := skip_count c1 + 1\<rparr>"
  from run2 s1 have run_mid: "sync_loop mid (?a, ?c) = (d2, c2)" by simp
  from sync_loop_mono [of mid "(?a, ?c)"] obtain ls' rs' where
    m: "locations d2 = locations ?a @ ls'" "readings d2 = readings ?a @ rs'"
    unfolding run_mid by auto
  from location_id_of_stable [OF loc_a m(1)]
  have loc2: "find (\<lambda>l. loc_place_id l = p) (locations d2) = Some row" by simp
  from key_a m(2) have key2: "(?l, ts) \<in> set (map reading_key (readings d2))" by auto
  have g2: "get_or_create_location (j_place_id data2) n nh a d2 = (Inr ?l, d2)" for n nh a
    using get_or_create_location_found [OF loc2 p2, of n nh a] g(3) by simp
  have l2: "location_id_of p d2 = ?l"
    using loc2 g(3) by (simp add: location_id_of_def)
  from ir2 bc2 have f: "\<not> isl (bind_param (j_popularity data2))"
    "\<not> isl (bind_param (j_day_of_week data2))" "\<not> isl (bind_param (j_hour data2))"
    by (simp_all add: insert_returns_def)
  have i2: "insert_reading ?l (j_popularity data2) (j_timestamp data2)
           (j_day_of_week data2) (j_hour data2) (j_is_open data2) (Some (blob_name b2)) d2
          = (Inr False, d2)"
    using f t2 key2 by (rule insert_reading_duplicate)
  from sync_blob_returns [OF ns2 ir2 bc2 p2, of c2]
  obtain n' nh' a' dg' ins' di' where
    "get_or_create_location (j_place_id data2) n' nh' a' d2 = (Inr (location_id_of p d2), dg')"
    "insert_reading (location_id_of p d2) (j_popularity data2) (j_timestamp data2)
              (j_day_of_week data2) (j_hour data2) (j_is_open data2) (Some (blob_name b2)) dg'
             = (Inr ins', di')"
    "sync_blob b2 (d2, c2) =
             (mark_blob_synced (blob_name b2) di',
              if ins' then c2\<lparr>new_count := new_count c2 + 1\<rparr>
              else c2\<lparr>skip_count := skip_count c2 + 1\<rparr>)"
    by blast
  with g2 [of n' nh' a'] l2 i2 have s2: "sync_blob b2 (d2, c2) = ?S" by simp
  have one2: "length (filter (\<lambda>r. reading_key r = (?l, ts)) (readings d2)) = 1"
    using cons2 key2 by (simp add: db_constraints_def distinct_key_filter_one)
  have loop: "sync_loop (pre @ b1 # mid @ b2 # post) (d, ?Z) = sync_loop post ?S"
    using run1 run2 s2 by (simp add: sync_loop_append)
  obtain d' c' where fin: "sync_loop post ?S = (d', c')" by (cases "sync_loop post ?S")
  from loop fin listed have res: "sync_readings (Listed blobs) d = (d', Inr (Some c'))"
    by (simp add: sync_readings_Listed)
  from sync_loop_mono [of post ?S] fin obtain rs'' where
    "readings d' = readings d2 @ rs''"
    by (auto simp: mark_blob_synced_other)
  with key2 have key': "(?l, ts) \<in> set (map reading_key (readings d'))" by auto
  have "db_constraints (fst ?S)" using cons2 by (simp add: mark_blob_synced_constraints)
  from sync_loop_constraints [OF this, of post] fin have "db_constraints d'" by simp
  with key' have one': "length (filter (\<lambda>r. reading_key r = (?l, ts)) (readings d')) = 1"
    by (simp add: db_constraints_def distinct_key_filter_one)
  from g2 [of n nh a] i2 s2 one2 res one' fin show ?thesis by simp
qed

theorem sync_dedup_by_content_witness:
  "db_constraints EMPTY_DB
   \<and> filter (\<lambda>b. suffix ''.json'' (blob_name b)) EX_BLOBS
       = [] @ EX_BLOB1 # [EX_BLOB3] @ EX_BLOB2 #
           [\<lparr>blob_name = ''readings/2024/01/28/15-30.json'',
              blob_content = JsonObject (EX_DATA\<lparr>j_place_id := JNull\<rparr>)\<rparr>, EX_BLOB4]
   \<and> insert_returns EX_BLOB1 \<and> insert_returns EX_BLOB2
   \<and> blob_content EX_BLOB1 = JsonObject EX_DATA \<and> blob_content EX_BLOB2 = JsonObject EX_DATA
   \<and> stored_text (j_place_id EX_DATA) = Some ''ChIJy8LxJaZGHRURzNVZXycuQnw''
   \<and> stored_text (j_timestamp EX_DATA) = Some ''2024-01-28T14:30:05+02:00''
   \<and> blob_name EX_BLOB1 \<noteq> blob_name EX_BLOB2 \<and> blob_name EX_BLOB3 \<noteq> blob_name EX_BLOB2
   \<and> sync_log EMPTY_DB = []
   \<and> sync_loop [EX_BLOB1, EX_BLOB3]
        (EMPTY_DB, \<lparr>new_count = 0, skip_count = 0, error_count = 0\<rparr>)
        = (EX_DB1, \<lparr>new_count = 1, skip_count = 0, error_count = 1\<rparr>)
   \<and> location_id_of ''ChIJy8LxJaZGHRURzNVZXycuQnw'' EMPTY_DB = 1
   \<and> insert_reading 1 (JInt 42) (JStr ''2024-01-28T14:30:05+02:00'') (JInt 6) (JInt 14)
        (JBool True) (Some ''readings/2024/01/28/14-31.json'') EX_DB1 = (Inr False, EX_DB1)
   \<and> sync_blob EX_BLOB2 (EX_DB1, \<lparr>new_count = 1, skip_count = 0, error_count = 1\<rparr>)
        = (EX_DB2, \<lparr>new_count = 1, skip_count = 1, error_count = 1\<rparr>)
   \<and> sync_readings (Listed EX_BLOBS) EMPTY_DB
        = (EX_DB2, Inr (Some \<lparr>new_count = 1, skip_count = 1, error_count = 3\<rparr>))
   \<and> length (filter (\<lambda>r. reading_key r = (1, ''2024-01-28T14:30:05+02:00''))
                (readings EX_DB2)) = 1
   \<and> length (readings EX_DB2) = 1"
proof -
  let ?Z = "\<lparr>new_count = 0, skip_count = 0, error_count = 0\<rparr>"
  let ?rest = "[\<lparr>blob_name = ''readings/2024/01/28/15-30.json'',
              blob_content = JsonObject (EX_DATA\<lparr>j_place_id := JNull\<rparr>)\<rparr>, EX_BLOB4]"
  have h1: "filter (\<lambda>b. suffix ''.json'' (blob_name b)) EX_BLOBS
       = [] @ EX_BLOB1 # [EX_BLOB3] @ EX_BLOB2 # ?rest"
    by (simp add: ex_json)
  have h2: "blob_content EX_BLOB1 = JsonObject EX_DATA" by (simp add: EX_BLOB1_def)
  have h3: "blob_content EX_BLOB2 = JsonObject EX_DATA" by (simp add: EX_BLOB2_def)
  have h4: "stored_text (j_place_id EX_DATA) = Some ''ChIJy8LxJaZGHRURzNVZXycuQnw''"
    by (simp add: EX_DATA_def returns_defs)
  have h5: "stored_text (j_timestamp EX_DATA) = Some ''2024-01-28T14:30:05+02:00''"
    by (simp add: EX_DATA_def returns_defs)
  have h6: "blob_name EX_BLOB1 \<notin> set (sync_log EMPTY_DB) \<union> blob_name ` set []"
    by (simp add: EMPTY_DB_def)
  have h7: "blob_name EX_BLOB2
              \<notin> set (sync_log EMPTY_DB) \<union> blob_name ` set ([] @ EX_BLOB1 # [EX_BLOB3])"
    by (simp add: ex_defs)
  have h7': "blob_name EX_BLOB1 \<noteq> blob_name EX_BLOB2" "blob_name EX_BLOB3 \<noteq> blob_name EX_BLOB2"
     "sync_log EMPTY_DB = []"
    by (simp_all add: ex_defs)
  have h8: "sync_loop [] (EMPTY_DB, ?Z) = (EMPTY_DB, ?Z)" by simp
  have h9: "sync_loop (EX_BLOB1 # [EX_BLOB3]) (EMPTY_DB, ?Z)
        = (EX_DB1, \<lparr>new_count = 1, skip_count = 0, error_count = 1\<rparr>)"
    by (simp add: ex_step1 ex_step3) (simp add: ex_defs is_blob_synced_def)
  have l: "location_id_of ''ChIJy8LxJaZGHRURzNVZXycuQnw'' EMPTY_DB = 1"
    by (simp add: location_id_of_def EMPTY_DB_def)
  have m: "mark_blob_synced (blob_name EX_BLOB2) EX_DB1 = EX_DB2"
    by (simp add: mark_blob_synced_def ex_defs)
  have n: "length (readings EX_DB2) = 1" by (simp add: ex_defs)
  have d: "j_popularity EX_DATA = JInt 42" "j_timestamp EX_DATA = JStr ''2024-01-28T14:30:05+02:00''"
     "j_day_of_week EX_DATA = JInt 6" "j_hour EX_DATA = JInt 14" "j_is_open EX_DATA = JBool True"
     "blob_name EX_BLOB2 = ''readings/2024/01/28/14-31.json''"
    by (simp_all add: EX_DATA_def EX_BLOB2_def)
  from sync_dedup_by_content [OF ex_constraints h1 ex_returns(1,2) h2 h3 h4 h4 h5 h5 h6 h7 h8 h9]
  show ?thesis
    using ex_constraints h1 ex_returns(1,2) h2 h3 h4 h5 h7' h9 l m n d ex_run1 by simp
qed

text \<open>
  Claim C9. An object is counted as an error exactly when its path is not in the ledger
  and it does not get through \<open>insert_reading\<close>: the download raised, the content is
  not JSON or no object, \<open>place_id\<close> is missing, falsy, unhashable or not storable as a
  text, or \<open>popularity\<close>, \<open>timestamp\<close>, \<open>day_of_week\<close> or \<open>hour\<close> cannot be bound.
  Such a turn leaves the ledger and the readings as they were (a location row may have
  been added before the insert raised). After a run the ledger holds, beyond what it held
  before, only paths of listed objects that got through \<open>insert_reading\<close>; so a failed
  object whose path no such object shares is still not in the ledger, and the next time it
  is met it is attempted and counted as an error again.
\<close>

theorem failed_object_not_in_ledger:
  "(error_count (snd (sync_blob b (d, c))) = Suc (error_count c)
      \<longleftrightarrow> \<not> is_blob_synced (blob_name b) d \<and> \<not> insert_returns b)
   \<and> (\<not> insert_returns b \<longleftrightarrow>
        blob_content b \<in> {DownloadRaises, NotJson, JsonNonObject}
        \<or> (\<exists>data. blob_content b = JsonObject data
               \<and> (\<not> truthy (j_place_id data)
                   \<or> isl (locations_get (j_place_id data))
                   \<or> stored_text (j_place_id data) = None
                   \<or> isl (bind_param (j_popularity data))
                   \<or> isl (bind_param (j_timestamp data))
                   \<or> isl (bind_param (j_day_of_week data))
                   \<or> isl (bind_param (j_hour data)))))
   \<and> (\<not> is_blob_synced (blob_name b) d \<and> \<not> insert_returns b \<longrightarrow>
        sync_log (fst (sync_blob b (d, c))) = sync_log d
        \<and> readings (fst (sync_blob b (d, c))) = readings d
        \<and> snd (sync_blob b (d, c)) = c\<lparr>error_count := error_count c + 1\<rparr>)
   \<and> (sync_readings (Listed blobs) d = (d', r) \<longrightarrow>
        set (sync_log d') \<subseteq>
          set (sync_log d) \<union>
          blob_name ` {x \<in> set blobs. suffix ''.json'' (blob_name x) \<and> insert_returns x}
        \<and> (\<not> is_blob_synced (blob_name b) d \<and> \<not> insert_returns b
             \<and> (\<forall>x \<in> set blobs. blob_name x = blob_name b \<longrightarrow> \<not> insert_returns x) \<longrightarrow>
             \<not> is_blob_synced (blob_name b) d'
             \<and> sync_log (fst (sync_blob b (d', c2))) = sync_log d'
             \<and> snd (sync_blob b (d', c2)) = c2\<lparr>error_count := error_count c2 + 1\<rparr>))"
  (is "?A \<and> ?B \<and> (?H3 \<longrightarrow> ?C3) \<and> (?H4 \<longrightarrow> ?C4a \<and> (?H5 \<longrightarrow> ?C5))")
proof -
  have a: ?A by (rule sync_blob_error_iff)
  have b: ?B by (auto simp: insert_returns_def split: download.splits)
  have fail: "sync_log (fst (sync_blob b (x, k))) = sync_log x
        \<and> readings (fst (sync_blob b (x, k))) = readings x
        \<and> snd (sync_blob b (x, k)) = k\<lparr>error_count := error_count k + 1\<rparr>"
    if "\<not> is_blob_synced (blob_name b) x" "\<not> insert_returns b" for x k
    using sync_blob_failed [OF that, of k] by auto
  have p3: "?H3 \<longrightarrow> ?C3" using fail by simp
  have p4: "?H4 \<longrightarrow> ?C4a \<and> (?H5 \<longrightarrow> ?C5)"
  proof
    assume ?H4
    then obtain c' where run: "sync_loop (filter (\<lambda>b. suffix ''.json'' (blob_name b)) blobs)
       (d, \<lparr>new_count = 0, skip_count = 0, error_count = 0\<rparr>) = (d', c')"
      by (auto simp: sync_readings_Listed)
    from sync_loop_log [of "(d, \<lparr>new_count = 0, skip_count = 0, error_count = 0\<rparr>)"
        "filter (\<lambda>b. suffix ''.json'' (blob_name b)) blobs"] run
    have l: "set (sync_log d') \<subseteq> set (sync_log d) \<union>
          blob_name ` {x \<in> set blobs. suffix ''.json'' (blob_name x) \<and> insert_returns x}"
      by auto
    have "?H5 \<longrightarrow> ?C5"
    proof
      assume h: ?H5
      with l have ns: "\<not> is_blob_synced (blob_name b) d'"
        by (auto simp: is_blob_synced_def)
      with fail [of d' c2] h show ?C5 by simp
    qed
    with l show "?C4a \<and> (?H5 \<longrightarrow> ?C5)" by simp
  qed
  show ?thesis by (rule conjI [OF a conjI [OF b conjI [OF p3 p4]]])
qed

theorem failed_object_not_in_ledger_witness:
  "\<not> is_blob_synced (blob_name EX_BLOB4) EMPTY_DB \<and> \<not> insert_returns EX_BLOB4
   \<and> isl (bind_param (JInt 9223372036854775808))
   \<and> filter (\<lambda>x. blob_name x = blob_name EX_BLOB4 \<and> insert_returns x) EX_BLOBS = []
   \<and> sync_readings (Listed EX_BLOBS) EMPTY_DB
        = (EX_DB2, Inr (Some \<lparr>new_count = 1, skip_count = 1, error_count = 3\<rparr>))
   \<and> \<not> is_blob_synced (blob_name EX_BLOB4) EX_DB2
   \<and> sync_blob EX_BLOB4 (EX_DB2, \<lparr>new_count = 0, skip_count = 2, error_count = 2\<rparr>)
        = (EX_DB2, \<lparr>new_count = 0, skip_count = 2, error_count = 3\<rparr>)
   \<and> sync_blob EX_BLOB4 (EMPTY_DB, \<lparr>new_count = 0, skip_count = 0, error_count = 0\<rparr>)
        = (EMPTY_DB\<lparr>locations := locations EX_DB1\<rparr>,
           \<lparr>new_count = 0, skip_count = 0, error_count = 1\<rparr>)
   \<and> sync_log EX_DB2 = [blob_name EX_BLOB1, blob_name EX_BLOB2]"
proof -
  let ?Z = "\<lparr>new_count = 0, skip_count = 0, error_count = 0\<rparr>"
  have a: "\<not> is_blob_synced (blob_name EX_BLOB4) EMPTY_DB"
      "\<not> is_blob_synced (blob_name EX_BLOB4) EX_DB2"
      "isl (bind_param (JInt 9223372036854775808))"
      "sync_log EX_DB2 = [blob_name EX_BLOB1, blob_name EX_BLOB2]"
    by (simp_all add: ex_defs is_blob_synced_def bind_param_def)
  have u: "\<forall>x \<in> set EX_BLOBS. blob_name x = blob_name EX_BLOB4 \<longrightarrow> \<not> insert_returns x"
    by (simp add: ex_defs returns_defs)
  have f: "filter (\<lambda>x. blob_name x = blob_name EX_BLOB4 \<and> insert_returns x) EX_BLOBS = []"
    using u by (auto simp: filter_empty_conv)
  have s: "sync_blob EX_BLOB4 (EX_DB2, \<lparr>new_count = 0, skip_count = 2, error_count = 2\<rparr>)
        = (EX_DB2, \<lparr>new_count = 0, skip_count = 2, error_count = 3\<rparr>)"
      "sync_blob EX_BLOB4 (EMPTY_DB, ?Z)
        = (EMPTY_DB\<lparr>locations := locations EX_DB1\<rparr>,
           \<lparr>new_count = 0, skip_count = 0, error_count = 1\<rparr>)"
    by (simp_all add: ex_step4 ex_step4_empty)
  from failed_object_not_in_ledger [of EX_BLOB4 EMPTY_DB ?Z EX_BLOBS EX_DB2
         "Inr (Some \<lparr>new_count = 1, skip_count = 1, error_count = 3\<rparr>)"
         "\<lparr>new_count = 0, skip_count = 2, error_count = 2\<rparr>"]
  have "snd (sync_blob EX_BLOB4 (EX_DB2, \<lparr>new_count = 0, skip_count = 2, error_count = 2\<rparr>))
          = \<lparr>new_count = 0, skip_count = 2, error_count = 3\<rparr>"
    using a u ex_returns(4) ex_run1 by simp
  with a f s ex_returns(4) ex_run1 show ?thesis by simp
qed

text \<open>
  Claim C10. A run over listed objects returns three counts that add up to the number of
  listed \<open>.json\<close> objects. Every turn of the loop raises exactly one of the three counts
  by one: the skipped count when the path is already in the ledger, and also when the
  object got through \<open>insert_reading\<close> and no row was added (a duplicate key, or a null
  time stamp); the new count when a row was added; the error count when the object did
  not get through \<open>insert_reading\<close>.
\<close>

theorem sync_counts_partition:
  "(sync_readings (Listed blobs) d = (d', r) \<longrightarrow>
      (\<exists>c. r = Inr (Some c)
         \<and> new_count c + skip_count c + error_count c
             = length (filter (\<lambda>b. suffix ''.json'' (blob_name b)) blobs)))
   \<and> (sync_blob b (d0, c0) = (d1, c1) \<longrightarrow>
        (new_count c1, skip_count c1, error_count c1) \<in>
          {(Suc (new_count c0), skip_count c0, error_count c0),
           (new_count c0, Suc (skip_count c0), error_count c0),
           (new_count c0, skip_count c0, Suc (error_count c0))}
        \<and> (is_blob_synced (blob_name b) d0 \<longrightarrow> skip_count c1 = Suc (skip_count c0))
        \<and> (\<not> is_blob_synced (blob_name b) d0 \<and> insert_returns b \<and> readings d1 = readings d0
             \<longrightarrow> skip_count c1 = Suc (skip_count c0))
        \<and> (\<not> is_blob_synced (blob_name b) d0 \<and> insert_returns b \<and> readings d1 \<noteq> readings d0
             \<longrightarrow> new_count c1 = Suc (new_count c0))
        \<and> (\<not> is_blob_synced (blob_name b) d0 \<and> \<not> insert_returns b
             \<longrightarrow> error_count c1 = Suc (error_count c0)))"
  (is "(?H1 \<longrightarrow> ?C1) \<and> (?H2 \<longrightarrow> ?C2)")
proof -
  have p1: "?H1 \<longrightarrow> ?C1"
  proof
    assume ?H1
    then obtain c where r: "r = Inr (Some c)"
      and "sync_loop (filter (\<lambda>b. suffix ''.json'' (blob_name b)) blobs)
       (d, \<lparr>new_count = 0, skip_count = 0, error_count = 0\<rparr>) = (d', c)"
      by (auto simp: sync_readings_Listed)
    with sync_loop_sum [of "filter (\<lambda>b. suffix ''.json'' (blob_name b)) blobs"
       "(d, \<lparr>new_count = 0, skip_count = 0, error_count = 0\<rparr>)"]
    have "new_count c + skip_count c + error_count c
        = length (filter (\<lambda>b. suffix ''.json'' (blob_name b)) blobs)"
      by simp
    with r show ?C1 by simp
  qed
  have p2: "?H2 \<longrightarrow> ?C2"
  proof
    assume s: ?H2
    have 1: "(new_count c1, skip_count c1, error_count c1) \<in>
          {(Suc (new_count c0), skip_count c0, error_count c0),
           (new_count c0, Suc (skip_count c0), error_count c0),
           (new_count c0, skip_count c0, Suc (error_count c0))}"
      using s by (rule sync_blob_fields)
    have 2: "is_blob_synced (blob_name b) d0 \<longrightarrow> skip_count c1 = Suc (skip_count c0)"
      using s by (auto simp: sync_blob_synced)
    have 3: "\<not> is_blob_synced (blob_name b) d0 \<and> insert_returns b \<and> readings d1 = readings d0
             \<longrightarrow> skip_count c1 = Suc (skip_count c0)"
      using sync_blob_duplicate_skip [OF s] by simp
    have 4: "\<not> is_blob_synced (blob_name b) d0 \<and> insert_returns b \<and> readings d1 \<noteq> readings d0
             \<longrightarrow> new_count c1 = Suc (new_count c0)"
      using sync_blob_duplicate_skip [OF s] by simp
    have 5: "\<not> is_blob_synced (blob_name b) d0 \<and> \<not> insert_returns b
             \<longrightarrow> error_count c1 = Suc (error_count c0)"
      using sync_blob_error_iff [of b d0 c0] s by simp
    from 1 2 3 4 5 show ?C2 by simp
  qed
  show ?thesis by (rule conjI [OF p1 p2])
qed

theorem sync_counts_partition_witness:
  "sync_readings (Listed EX_BLOBS) EMPTY_DB
        = (EX_DB2, Inr (Some \<lparr>new_count = 1, skip_count = 1, error_count = 3\<rparr>))
   \<and> (1::nat) + 1 + 3 = length (filter (\<lambda>b. suffix ''.json'' (blob_name b)) EX_BLOBS)
   \<and> length EX_BLOBS = 6
   \<and> sync_blob EX_BLOB1 (EMPTY_DB, \<lparr>new_count = 0, skip_count = 0, error_count = 0\<rparr>)
        = (EX_DB1, \<lparr>new_count = 1, skip_count = 0, error_count = 0\<rparr>)
   \<and> \<not> is_blob_synced (blob_name EX_BLOB1) EMPTY_DB \<and> insert_returns EX_BLOB1
   \<and> readings EX_DB1 \<noteq> readings EMPTY_DB
   \<and> sync_blob EX_BLOB2 (EX_DB1, \<lparr>new_count = 1, skip_count = 0, error_count = 1\<rparr>)
        = (EX_DB2, \<lparr>new_count = 1, skip_count = 1, error_count = 1\<rparr>)
   \<and> \<not> is_blob_synced (blob_name EX_BLOB2) EX_DB1 \<and> insert_returns EX_BLOB2
   \<and> readings EX_DB2 = readings EX_DB1
   \<and> sync_blob EX_BLOB1 (EX_DB2, \<lparr>new_count = 1, skip_count = 1, error_count = 0\<rparr>)
        = (EX_DB2, \<lparr>new_count = 1, skip_count = 2, error_count = 0\<rparr>)
   \<and> is_blob_synced (blob_name EX_BLOB1) EX_DB2
   \<and> sync_blob EX_BLOB4 (EX_DB2, \<lparr>new_count = 1, skip_count = 1, error_count = 2\<rparr>)
        = (EX_DB2, \<lparr>new_count = 1, skip_count = 1, error_count = 3\<rparr>)
   \<and> \<not> is_blob_synced (blob_name EX_BLOB4) EX_DB2 \<and> \<not> insert_returns EX_BLOB4"
proof -
  have s0: "sync_blob EX_BLOB1 (EMPTY_DB, \<lparr>new_count = 0, skip_count = 0, error_count = 0\<rparr>)
        = (EX_DB1, \<lparr>new_count = 1, skip_count = 0, error_count = 0\<rparr>)"
    by (simp add: ex_step1)
  have s2: "sync_blob EX_BLOB2 (EX_DB1, \<lparr>new_count = 1, skip_count = 0, error_count = 1\<rparr>)
        = (EX_DB2, \<lparr>new_count = 1, skip_count = 1, error_count = 1\<rparr>)"
    by (simp add: ex_step2)
  have s1: "sync_blob EX_BLOB1 (EX_DB2, \<lparr>new_count = 1, skip_count = 1, error_count = 0\<rparr>)
        = (EX_DB2, \<lparr>new_count = 1, skip_count = 2, error_count = 0\<rparr>)"
    by (simp add: ex_defs sync_defs)
  have s4: "sync_blob EX_BLOB4 (EX_DB2, \<lparr>new_count = 1, skip_count = 1, error_count = 2\<rparr>)
        = (EX_DB2, \<lparr>new_count = 1, skip_count = 1, error_count = 3\<rparr>)"
    by (simp add: ex_step4)
  have a: "\<not> is_blob_synced (blob_name EX_BLOB1) EMPTY_DB"
      "readings EX_DB1 \<noteq> readings EMPTY_DB"
      "\<not> is_blob_synced (blob_name EX_BLOB2) EX_DB1"
      "readings EX_DB2 = readings EX_DB1" "is_blob_synced (blob_name EX_BLOB1) EX_DB2"
      "\<not> is_blob_synced (blob_name EX_BLOB4) EX_DB2" "length EX_BLOBS = 6"
    by (simp_all add: ex_defs is_blob_synced_def)
  note t = sync_counts_partition [of EX_BLOBS EMPTY_DB EX_DB2
         "Inr (Some \<lparr>new_count = 1, skip_count = 1, error_count = 3\<rparr>)"]
  from t [of EX_BLOB1 EMPTY_DB "\<lparr>new_count = 0, skip_count = 0, error_count = 0\<rparr>"
             EX_DB1 "\<lparr>new_count = 1, skip_count = 0, error_count = 0\<rparr>"]
       t [of EX_BLOB2 EX_DB1 "\<lparr>new_count = 1, skip_count = 0, error_count = 1\<rparr>"
             EX_DB2 "\<lparr>new_count = 1, skip_count = 1, error_count = 1\<rparr>"]
       t [of EX_BLOB1 EX_DB2 "\<lparr>new_count = 1, skip_count = 1, error_count = 0\<rparr>"
             EX_DB2 "\<lparr>new_count = 1, skip_count = 2, error_count = 0\<rparr>"]
       t [of EX_BLOB4 EX_DB2 "\<lparr>new_count = 1, skip_count = 1, error_count = 2\<rparr>"
             EX_DB2 "\<lparr>new_count = 1, skip_count = 1, error_count = 3\<rparr>"]
  show ?thesis using ex_run1 s0 s1 s2 s4 a ex_returns by simp
qed

end
